theory Spec2Isabelle
  imports Main "HOL-Library.Word" "HOL-Library.AList" "HOL-Library.Multiset" "HOL-Library.Sublist"
begin

section \<open>Shared vocabulary\<close>

text \<open>
  A \<open>Buffer\<close> is a list of bytes.  A JavaScript call that may throw is a value of
  \<open>string + 'a\<close>: \<open>Inl m\<close> is a thrown \<open>Error\<close> whose \<open>message\<close> is \<open>m\<close>,
  \<open>Inr v\<close> is the returned (or awaited) value.
\<close>

type_synonym buffer = "8 word list"

type_synonym 'a js = "string + 'a"

text \<open>The garment objects that the upload handler builds: \<open>{type, imagePath, id}\<close>.\<close>

record garment =
  type :: string
  imagePath :: string
  garmentId :: string

section \<open>The garment classifier\<close>

text \<open>
  \<open>determineGarmentType\<close> of the Replicate service module.  \<open>Array.prototype.some\<close> is
  \<open>list_ex\<close>; the comparison \<open>g.type === 'top'\<close> is equality of strings.
\<close>

definition determineGarmentType :: "garment list \<Rightarrow> string" where
  "determineGarmentType garments =
     (let hasTop = list_ex (\<lambda>g. type g = ''top'') garments;
          hasBottom = list_ex (\<lambda>g. type g = ''bottom'') garments;
          hasDress = list_ex (\<lambda>g. type g = ''dress'') garments;
          hasOuter = list_ex (\<lambda>g. type g = ''outer'') garments
      in if hasDress then ''dress''
         else if hasTop \<and> hasBottom then ''top_bottom''
         else if hasTop \<and> hasOuter then ''top_outer''
         else if hasTop then ''top''
         else if hasBottom then ''bottom''
         else if hasOuter then ''outer''
         else ''top'')"

section \<open>Raw backend output and normalized result records\<close>

text \<open>
  The value that the \<open>imageUrl\<close> field of a record, the \<open>url\<close> property of an output
  object, or the return value of a \<open>url()\<close> resolver can be, in the cases the code
  tells apart: a string; a non-string value such as a \<open>URL\<close> object, given by what its
  \<open>toString()\<close> returns; \<open>null\<close> or \<open>undefined\<close> (also an absent property); a function,
  given by its source text and by the outcome of calling it without arguments.
\<close>

datatype jsurl = Str string | NonStr string | Nullish | Fn string "jsurl js"

text \<open>
  One item of the backend's output, by the shape tests of \<open>processReplicateOutput\<close>:
  a \<open>Readable\<close> stream (it has \<open>pipe\<close>), given by the outcome of draining it, which is
  either an \<open>error\<close> event or the chunks read before \<open>end\<close> (a stream is taken to
  reach one of the two); a string; any other non-null
  object, given by its \<open>url\<close> property (a nested array is such an object, with no
  \<open>url\<close>); any other value (\<open>undefined\<close>, \<open>null\<close>, a number, a boolean).
\<close>

datatype rawitem =
    Stream "buffer list js"
  | StringItem string
  | ObjectItem jsurl
  | OtherItem

datatype rawoutput = OutputArray "rawitem list" | OutputSingle rawitem

text \<open>
  A result record.  A field the object literal leaves out is \<open>None\<close>, \<open>Nullish\<close> or
  \<open>False\<close>.  The source's field \<open>type\<close> is \<open>resultType\<close> here.
\<close>

record result =
  imageBuffer :: "buffer option"
  imageUrl :: jsurl
  index :: nat
  resultType :: string
  mimeType :: string
  isStream :: bool
  isMock :: bool

definition streamResult :: "buffer \<Rightarrow> nat \<Rightarrow> result" where
  "streamResult b i =
     \<lparr>imageBuffer = Some b, imageUrl = Nullish, index = i, resultType = ''tryon_result'',
      mimeType = ''image/png'', isStream = True, isMock = False\<rparr>"

definition urlResult :: "jsurl \<Rightarrow> nat \<Rightarrow> result" where
  "urlResult u i =
     \<lparr>imageBuffer = None, imageUrl = u, index = i, resultType = ''tryon_result'',
      mimeType = ''image/png'', isStream = False, isMock = False\<rparr>"

definition createMockResults :: "result list" where
  "createMockResults =
     [\<lparr>imageBuffer = None, imageUrl = Str ''mock://tryon-result-1'', index = 0,
       resultType = ''tryon_result'', mimeType = ''image/png'', isStream = False,
       isMock = True\<rparr>]"

text \<open>\<open>streamToBuffer\<close>: rejects on the stream's error, else concatenates the chunks.\<close>

definition streamToBuffer :: "buffer list js \<Rightarrow> buffer js" where
  "streamToBuffer stream = (case stream of Inl e \<Rightarrow> Inl e | Inr chunks \<Rightarrow> Inr (concat chunks))"

section \<open>The output normalizer of the service module\<close>

text \<open>
  The \<open>url\<close> branches shared by the array loop and the single-object case of the module:
  a callable \<open>url\<close> is invoked inside its own \<open>try\<close>, and a throw leaves \<open>results\<close> as it
  is; a truthy string \<open>url\<close> is taken as it is; anything else is only logged.
\<close>

fun pushObject :: "nat \<Rightarrow> jsurl \<Rightarrow> result list \<Rightarrow> result list" where
  "pushObject i (Fn src (Inr resolvedUrl)) results = results @ [urlResult resolvedUrl i]"
| "pushObject i (Fn src (Inl urlError)) results = results"
| "pushObject i (Str s) results = (if s \<noteq> [] then results @ [urlResult (Str s) i] else results)"
| "pushObject i (NonStr s) results = results"
| "pushObject i Nullish results = results"

text \<open>The body of the \<open>for\<close> loop over an array output, for the item at position \<open>i\<close>.\<close>

fun processItem :: "nat \<Rightarrow> rawitem \<Rightarrow> result list \<Rightarrow> result list js" where
  "processItem i (Stream stream) results =
     (case streamToBuffer stream of
        Inl e \<Rightarrow> Inl e
      | Inr buf \<Rightarrow> Inr (results @ [streamResult buf i]))"
| "processItem i (StringItem item) results = Inr (results @ [urlResult (Str item) i])"
| "processItem i (ObjectItem url) results = Inr (pushObject i url results)"
| "processItem i OtherItem results = Inr results"

fun processItems :: "nat \<Rightarrow> rawitem list \<Rightarrow> result list \<Rightarrow> result list js" where
  "processItems i [] results = Inr results"
| "processItems i (item # rest) results =
     (case processItem i item results of
        Inl e \<Rightarrow> Inl e
      | Inr results' \<Rightarrow> processItems (Suc i) rest results')"

text \<open>
  A single (non-array) output of the module: a string, or an object probed for \<open>url\<close>.
  The module has no stream test here, so a single stream is an object without \<open>url\<close>.
\<close>

fun processSingle :: "rawitem \<Rightarrow> result list" where
  "processSingle (StringItem output) = [urlResult (Str output) 0]"
| "processSingle (ObjectItem url) = pushObject 0 url []"
| "processSingle (Stream stream) = []"
| "processSingle OtherItem = []"

text \<open>
  \<open>processReplicateOutput\<close> of the module: the collected records, or the mock record when
  none was collected; an error thrown inside is rethrown with a prefix.
\<close>

definition processReplicateOutput :: "rawoutput \<Rightarrow> result list js" where
  "processReplicateOutput output =
     (case (case output of
              OutputArray items \<Rightarrow> processItems 0 items []
            | OutputSingle item \<Rightarrow> Inr (processSingle item)) of
        Inl e \<Rightarrow> Inl (''Failed to process results: '' @ e)
      | Inr results \<Rightarrow> Inr (if length results = 0 then createMockResults else results))"

section \<open>The output normalizer of the server\<close>

text \<open>
  \<open>toString()\<close> on a resolved value: a \<open>TypeError\<close> on \<open>null\<close> and \<open>undefined\<close>.
\<close>

fun toString :: "jsurl \<Rightarrow> string js" where
  "toString (Str s) = Inr s"
| "toString (NonStr s) = Inr s"
| "toString (Fn src call) = Inr src"
| "toString Nullish = Inl ''Cannot read properties of undefined (reading 'toString')''"

fun pushObject_server :: "nat \<Rightarrow> jsurl \<Rightarrow> result list \<Rightarrow> result list" where
  "pushObject_server i (Fn src (Inr resolvedUrl)) results =
     (case toString resolvedUrl of
        Inl urlError \<Rightarrow> results
      | Inr s \<Rightarrow> results @ [urlResult (Str s) i])"
| "pushObject_server i (Fn src (Inl urlError)) results = results"
| "pushObject_server i (Str s) results =
     (if s \<noteq> [] then results @ [urlResult (Str s) i] else results)"
| "pushObject_server i (NonStr s) results = results"
| "pushObject_server i Nullish results = results"

fun processItem_server :: "nat \<Rightarrow> rawitem \<Rightarrow> result list \<Rightarrow> result list js" where
  "processItem_server i (Stream stream) results =
     (case streamToBuffer stream of
        Inl e \<Rightarrow> Inl e
      | Inr buf \<Rightarrow> Inr (results @ [streamResult buf i]))"
| "processItem_server i (StringItem item) results = Inr (results @ [urlResult (Str item) i])"
| "processItem_server i (ObjectItem url) results = Inr (pushObject_server i url results)"
| "processItem_server i OtherItem results = Inr results"

fun processItems_server :: "nat \<Rightarrow> rawitem list \<Rightarrow> result list \<Rightarrow> result list js" where
  "processItems_server i [] results = Inr results"
| "processItems_server i (item # rest) results =
     (case processItem_server i item results of
        Inl e \<Rightarrow> Inl e
      | Inr results' \<Rightarrow> processItems_server (Suc i) rest results')"

text \<open>
  \<open>processReplicateOutput\<close> of the server.  A single stream is drained here, and a single
  value of no known shape returns the mock record at once.
\<close>

definition processReplicateOutput_server :: "rawoutput \<Rightarrow> result list js" where
  "processReplicateOutput_server output =
     (case (case output of
              OutputArray items \<Rightarrow> processItems_server 0 items []
            | OutputSingle (Stream stream) \<Rightarrow>
                (case streamToBuffer stream of
                   Inl e \<Rightarrow> Inl e
                 | Inr buf \<Rightarrow> Inr [streamResult buf 0])
            | OutputSingle (StringItem s) \<Rightarrow> Inr [urlResult (Str s) 0]
            | OutputSingle (ObjectItem url) \<Rightarrow> Inr (pushObject_server 0 url [])
            | OutputSingle OtherItem \<Rightarrow> Inr createMockResults) of
        Inl e \<Rightarrow> Inl (''Failed to process results: '' @ e)
      | Inr results \<Rightarrow> Inr (if length results = 0 then createMockResults else results))"

section \<open>Vocabulary for the normalizer's properties\<close>

text \<open>A stream item whose draining ends in an \<open>error\<close> event.\<close>

fun streamFails :: "rawitem \<Rightarrow> bool" where
  "streamFails (Stream (Inl e)) = True"
| "streamFails _ = False"

fun isStreamItem :: "rawitem \<Rightarrow> bool" where
  "isStreamItem (Stream s) = True"
| "isStreamItem _ = False"

text \<open>
  An item that contributes no record: a value of no recognized shape, an object whose
  \<open>url\<close> is neither callable nor a non-empty string, or an object whose resolver throws.
\<close>

fun unproductive :: "rawitem \<Rightarrow> bool" where
  "unproductive OtherItem = True"
| "unproductive (ObjectItem (Fn src (Inl e))) = True"
| "unproductive (ObjectItem (Fn src (Inr v))) = False"
| "unproductive (ObjectItem (Str s)) = (s = [])"
| "unproductive (ObjectItem (NonStr s)) = True"
| "unproductive (ObjectItem Nullish) = True"
| "unproductive (StringItem s) = False"
| "unproductive (Stream s) = False"

text \<open>An array output one of whose streams fails.\<close>

fun arrayStreamFails :: "rawoutput \<Rightarrow> bool" where
  "arrayStreamFails (OutputArray items) = list_ex streamFails items"
| "arrayStreamFails (OutputSingle item) = False"

text \<open>
  An output from which the module collects no record: an array of unproductive items
  (the empty array among them), a single unproductive value, or a single stream.
\<close>

fun nothingProduced :: "rawoutput \<Rightarrow> bool" where
  "nothingProduced (OutputArray items) = list_all unproductive items"
| "nothingProduced (OutputSingle (Stream s)) = True"
| "nothingProduced (OutputSingle item) = unproductive item"

text \<open>
  The records that the loop body adds for the item at position \<open>i\<close>, read off the loop
  body run on an empty \<open>results\<close> list.
\<close>

definition itemRecords :: "nat \<Rightarrow> rawitem \<Rightarrow> result list" where
  "itemRecords i item = (case processItem i item [] of Inl e \<Rightarrow> [] | Inr rs \<Rightarrow> rs)"

definition itemRecords_server :: "nat \<Rightarrow> rawitem \<Rightarrow> result list" where
  "itemRecords_server i item =
     (case processItem_server i item [] of Inl e \<Rightarrow> [] | Inr rs \<Rightarrow> rs)"

text \<open>The final step of both normalizers: the mock record stands in for an empty list.\<close>

definition orMock :: "result list \<Rightarrow> result list" where
  "orMock rs = (if rs = [] then createMockResults else rs)"

section \<open>The environment of the service\<close>

text \<open>
  What the code obtains from outside itself is read from an environment.  The drawing
  functions only call \<open>node-canvas\<close>, so each is given by the outcome of its call: the
  encoded image, or the error that \<open>require\<close>, \<open>createCanvas\<close> or \<open>toBuffer\<close> throws.
  \<open>axiosGet\<close> is \<open>axios.get\<close> with \<open>responseType: 'arraybuffer'\<close> and a timeout of 30
  seconds: \<open>Inl\<close> is a rejected request (timeout, network failure, a status outside 2xx),
  \<open>Inr None\<close> a response whose \<open>data\<close> is falsy, \<open>Inr (Some d)\<close> a response with data.
  \<open>readFile\<close> is \<open>fs.readFileSync\<close> and \<open>replicateRun\<close> the answer of the hosted model;
  \<open>dirname\<close> is \<open>__dirname\<close>, \<open>existsSync\<close> is \<open>fs.existsSync\<close> and \<open>statSize\<close> the
  \<open>size\<close> that \<open>fs.statSync\<close> reports.
\<close>

record env =
  canvasMockImage :: "buffer js"
  axiosGet :: "string \<Rightarrow> buffer option js"
  createMockResultImage :: "string \<Rightarrow> garment list \<Rightarrow> nat \<Rightarrow> buffer js"
  createProfessionalEnhancedProduct :: "garment list \<Rightarrow> buffer js"
  createProfessionalProductBack :: "garment list \<Rightarrow> buffer js"
  createModelBackView :: "string \<Rightarrow> string \<Rightarrow> buffer js"
  readFile :: "string \<Rightarrow> buffer js"
  replicateRun :: "rawoutput js"
  dirname :: string
  existsSync :: "string \<Rightarrow> bool"
  statSize :: "string \<Rightarrow> nat js"

section \<open>The fallback image and the materializer\<close>

text \<open>
  \<open>createMockImageBuffer\<close> of the module wraps the drawing in \<open>try\<close> and returns
  \<open>Buffer.from([])\<close> from its \<open>catch\<close>; the server's version has no \<open>try\<close>.
\<close>

definition createMockImageBuffer :: "env \<Rightarrow> buffer" where
  "createMockImageBuffer e = (case canvasMockImage e of Inl error \<Rightarrow> [] | Inr png \<Rightarrow> png)"

definition createMockImageBuffer_server :: "env \<Rightarrow> buffer js" where
  "createMockImageBuffer_server e = canvasMockImage e"

text \<open>
  The \<open>try\<close> block of \<open>getImageBuffer\<close>, with the fallback as a parameter so that both
  versions share it.  A \<open>Buffer\<close> is an object and so always truthy.  The message of the
  type error also names \<open>typeof imageUrl\<close>; it is never read.
\<close>

definition getImageBufferTry :: "env \<Rightarrow> buffer js \<Rightarrow> result \<Rightarrow> buffer js" where
  "getImageBufferTry e mock r =
     (case imageBuffer r of
        Some b \<Rightarrow> Inr b
      | None \<Rightarrow>
          (case (case imageUrl r of Fn src call \<Rightarrow> call | u \<Rightarrow> Inr u) of
             Inl error \<Rightarrow> Inl error
           | Inr (Str url) \<Rightarrow>
               if prefix ''mock://'' url then mock
               else (case axiosGet e url of
                       Inl error \<Rightarrow> Inl error
                     | Inr None \<Rightarrow> Inl ''Empty response from image URL''
                     | Inr (Some d) \<Rightarrow> Inr d)
           | Inr u \<Rightarrow> Inl ''Invalid image URL type''))"

definition getImageBuffer :: "env \<Rightarrow> result \<Rightarrow> buffer js" where
  "getImageBuffer e r =
     (case getImageBufferTry e (Inr (createMockImageBuffer e)) r of
        Inl error \<Rightarrow> Inr (createMockImageBuffer e)
      | Inr b \<Rightarrow> Inr b)"

definition getImageBuffer_server :: "env \<Rightarrow> result \<Rightarrow> buffer js" where
  "getImageBuffer_server e r =
     (case getImageBufferTry e (createMockImageBuffer_server e) r of
        Inl error \<Rightarrow> createMockImageBuffer_server e
      | Inr b \<Rightarrow> Inr b)"

section \<open>Numbers in strings\<close>

text \<open>
  The decimal digits of a natural number, as \<open>toString()\<close> and template literals print
  it.
\<close>

definition digitChar :: "nat \<Rightarrow> char" where
  "digitChar d = ''0123456789'' ! d"

function decimal :: "nat \<Rightarrow> string" where
  "decimal n = (if n < 10 then [digitChar n] else decimal (n div 10) @ [digitChar (n mod 10)])"
  by pat_completeness auto
termination
  by (relation "measure (\<lambda>n. n)") auto

declare decimal.simps [simp del]

section \<open>Jobs and the job registry\<close>

datatype jobStatus = Processing | Completed | Failed

text \<open>The slots of a job's \<open>results\<close> object, in insertion order.\<close>

type_synonym slots = "(string \<times> string) list"

text \<open>
  A job object.  \<open>results\<close> is \<open>null\<close> until the job completes; \<open>error\<close> and
  \<open>completedTime\<close> are absent until they are assigned.  Times are clock readings.
\<close>

record job =
  status :: jobStatus
  progress :: nat
  message :: string
  results :: "slots option"
  startTime :: nat
  modelImage :: string
  garments :: "garment list"
  isDefaultModel :: bool
  userId :: string
  error :: "string option"
  completedTime :: "nat option"

text \<open>\<open>generationJobs\<close>, a \<open>Map\<close> from request ids to jobs.\<close>

type_synonym registry = "string \<rightharpoonup> job"

text \<open>
  The \<open>outputs\<close> directory, keyed by the reference that \<open>saveGeneratedImage\<close> returns.
  Writing a file is taken to succeed.
\<close>

type_synonym disk = "string \<rightharpoonup> buffer"

definition saveGeneratedImage :: "buffer \<Rightarrow> string \<Rightarrow> string \<Rightarrow> disk \<Rightarrow> string \<times> disk" where
  "saveGeneratedImage buf filename uid d =
     (let ref = ''/outputs/'' @ uid @ ''/'' @ filename in (ref, d(ref \<mapsto> buf)))"

section \<open>The remote backend call of the server\<close>

record options =
  numOutputs :: int
  seed :: "int option"

definition prepareImage :: "env \<Rightarrow> string \<Rightarrow> buffer js" where
  "prepareImage e path =
     (case readFile e path of
        Inl m \<Rightarrow> Inl (''Image preparation failed: '' @ m)
      | Inr b \<Rightarrow> Inr b)"

text \<open>The loop that reads every garment image; the buffers only go to the backend.\<close>

fun prepareGarments :: "env \<Rightarrow> garment list \<Rightarrow> unit js" where
  "prepareGarments e [] = Inr ()"
| "prepareGarments e (g # gs) =
     (case prepareImage e (imagePath g) of
        Inl m \<Rightarrow> Inl m
      | Inr b \<Rightarrow> prepareGarments e gs)"

definition virtualTryOn_server :: "env \<Rightarrow> string \<Rightarrow> garment list \<Rightarrow> options \<Rightarrow> result list js" where
  "virtualTryOn_server e modelImagePath gs opts =
     (case (case prepareImage e modelImagePath of
              Inl m \<Rightarrow> Inl m
            | Inr b \<Rightarrow>
                (case prepareGarments e gs of
                   Inl m \<Rightarrow> Inl m
                 | Inr u \<Rightarrow>
                     (case replicateRun e of
                        Inl m \<Rightarrow> Inl m
                      | Inr out \<Rightarrow> processReplicateOutput_server out))) of
        Inl m \<Rightarrow> Inl (''Virtual try-on failed: '' @ m)
      | Inr rs \<Rightarrow> Inr rs)"

section \<open>The generation pipeline\<close>

text \<open>
  \<open>activeAIService\<close> is chosen once at startup; the pipeline sees it as two methods, the
  backend call and the materializer.
\<close>

record service =
  virtualTryOn :: "string \<Rightarrow> garment list \<Rightarrow> options \<Rightarrow> result list js"
  imageBufferOf :: "result \<Rightarrow> buffer js"

definition tryonFile :: "string \<Rightarrow> nat \<Rightarrow> string \<Rightarrow> string" where
  "tryonFile rid i ext = ''vella-result-'' @ rid @ ''-'' @ decimal i @ ext"

definition tryonSlot :: "nat \<Rightarrow> string" where
  "tryonSlot i = ''tryonResult'' @ decimal (i + 1)"

text \<open>
  The loop over \<open>vellaResults\<close>, from position \<open>i\<close> on.  When the materializer throws, the
  slot gets the mock result image; when drawing that throws too, the error leaves the
  loop.  The disk is returned in either case.
\<close>

fun materializeResults ::
  "env \<Rightarrow> service \<Rightarrow> job \<Rightarrow> string \<Rightarrow> nat \<Rightarrow> result list \<Rightarrow> slots \<Rightarrow> disk \<Rightarrow> slots js \<times> disk"
where
  "materializeResults e svc j rid i [] sl d = (Inr sl, d)"
| "materializeResults e svc j rid i (r # rest) sl d =
     (case imageBufferOf svc r of
        Inr buf \<Rightarrow>
          materializeResults e svc j rid (Suc i) rest
            (AList.update (tryonSlot i)
               (fst (saveGeneratedImage buf (tryonFile rid i ''.png'') (userId j) d)) sl)
            (snd (saveGeneratedImage buf (tryonFile rid i ''.png'') (userId j) d))
      | Inl err \<Rightarrow>
          (case createMockResultImage e (modelImage j) (garments j) i of
             Inl err' \<Rightarrow> (Inl err', d)
           | Inr mockBuffer \<Rightarrow>
               materializeResults e svc j rid (Suc i) rest
                 (AList.update (tryonSlot i)
                    (fst (saveGeneratedImage mockBuffer (tryonFile rid i ''.jpg'') (userId j) d))
                    sl)
                 (snd (saveGeneratedImage mockBuffer (tryonFile rid i ''.jpg'') (userId j) d))))"

text \<open>A slot that is set and truthy (a non-empty string).\<close>

definition slotSet :: "slots \<Rightarrow> string \<Rightarrow> bool" where
  "slotSet sl k = (case map_of sl k of None \<Rightarrow> False | Some v \<Rightarrow> v \<noteq> [])"

text \<open>
  The additional images, drawn when \<open>results\<close> has at least one key.  The block is one
  \<open>try\<close>: the first drawing that throws ends it, and what was stored before stays.
\<close>

definition additionalImages :: "env \<Rightarrow> job \<Rightarrow> string \<Rightarrow> slots \<Rightarrow> disk \<Rightarrow> slots \<times> disk" where
  "additionalImages e j rid sl d =
     (if length sl > 0 then
        (case createProfessionalEnhancedProduct e (garments j) of
           Inl err \<Rightarrow> (sl, d)
         | Inr enhancedProductBuffer \<Rightarrow>
             (let s1 = saveGeneratedImage enhancedProductBuffer
                         (''enhanced-'' @ rid @ ''.jpg'') (userId j) d;
                  sl1 = AList.update ''enhancedProduct'' (fst s1) sl
              in case createProfessionalProductBack e (garments j) of
                   Inl err \<Rightarrow> (sl1, snd s1)
                 | Inr productBackBuffer \<Rightarrow>
                     (let s2 = saveGeneratedImage productBackBuffer
                                 (''product-back-'' @ rid @ ''.jpg'') (userId j) (snd s1);
                          sl2 = AList.update ''productBack'' (fst s2) sl1;
                          sl3 = (if slotSet sl2 ''tryonResult1''
                                 then AList.update ''modelFront''
                                        (the (map_of sl2 ''tryonResult1'')) sl2
                                 else sl2)
                      in if slotSet sl3 ''tryonResult2''
                         then (AList.update ''modelBack''
                                 (the (map_of sl3 ''tryonResult2'')) sl3, snd s2)
                         else if slotSet sl3 ''tryonResult1''
                         then (case createModelBackView e
                                      (the (map_of sl3 ''tryonResult1'')) (userId j) of
                                 Inl err \<Rightarrow> (sl3, snd s2)
                               | Inr backViewBuffer \<Rightarrow>
                                   (let s3 = saveGeneratedImage backViewBuffer
                                               (''model-back-'' @ rid @ ''.jpg'') (userId j)
                                               (snd s2)
                                    in (AList.update ''modelBack'' (fst s3) sl3, snd s3)))
                         else (sl3, snd s2))))
      else (sl, d))"

definition failJob :: "job \<Rightarrow> string \<Rightarrow> nat \<Rightarrow> job" where
  "failJob j msg now = j\<lparr>status := Failed, error := Some msg, completedTime := Some now\<rparr>"

definition completeJob :: "job \<Rightarrow> slots \<Rightarrow> nat \<Rightarrow> job" where
  "completeJob j sl now =
     j\<lparr>results := Some sl, status := Completed, progress := 100,
       message := ''Vella virtual try-on completed successfully'',
       completedTime := Some now\<rparr>"

text \<open>
  \<open>processVellaTryOn\<close>.  The job object is changed in place and handed to
  \<open>generationJobs.set\<close> after each group of assignments, with no \<open>await\<close> in between,
  so the run is given by the list of job values it stores under the request id, in order,
  and by the disk it leaves.  No job under the id: nothing is stored.  The deletion of the
  uploaded inputs after completion touches no job field and throws nothing out of its own
  \<open>try\<close>; it is left out.
\<close>

text \<open>
  The options that the pipeline hands to the backend: \<open>parseInt(numOutputs) || 1\<close>, and
  the seed when it is truthy.
\<close>

definition pipelineOptions :: "options \<Rightarrow> options" where
  "pipelineOptions opts =
     \<lparr>numOutputs = (if numOutputs opts = 0 then 1 else numOutputs opts),
      seed = (case seed opts of None \<Rightarrow> None | Some s \<Rightarrow> if s = 0 then None else Some s)\<rparr>"

definition processVellaTryOn ::
  "env \<Rightarrow> service \<Rightarrow> nat \<Rightarrow> string \<Rightarrow> options \<Rightarrow> registry \<Rightarrow> disk \<Rightarrow> job list \<times> disk"
where
  "processVellaTryOn e svc now rid opts jobs d =
     (case jobs rid of
        None \<Rightarrow> ([], d)
      | Some j \<Rightarrow>
          (let job20 = j\<lparr>progress := 20, message := ''Preparing images for Vella AI...''\<rparr>;
               job40 = job20\<lparr>progress := 40, message := ''Running Vella AI model...''\<rparr>
           in case virtualTryOn svc (modelImage job40) (garments job40) (pipelineOptions opts) of
                Inl msg \<Rightarrow> ([job20, job40, failJob job40 msg now], d)
              | Inr vellaResults \<Rightarrow>
                  (let job80 = job40\<lparr>progress := 80, message := ''Processing results...''\<rparr>
                   in case materializeResults e svc job80 rid 0 vellaResults [] d of
                        (Inl msg, d1) \<Rightarrow> ([job20, job40, job80, failJob job80 msg now], d1)
                      | (Inr sl, d1) \<Rightarrow>
                          ([job20, job40, job80,
                            completeJob job80 (fst (additionalImages e job80 rid sl d1)) now],
                           snd (additionalImages e job80 rid sl d1)))))"


section \<open>Requests and responses\<close>

text \<open>
  The parsed \<open>garmentData\<close> field: text that \<open>JSON.parse\<close> rejects; \<open>undefined\<close> or
  \<open>null\<close>; or a value with the properties the handler reads, each an optional string (a
  value without them, such as a number, has none).  A property is truthy when it is a
  non-empty string.
\<close>

record garmentEntry =
  entryId :: "string option"
  entryGarmentType :: "string option"

record parsedData =
  dataId :: "string option"
  dataGarmentType :: "string option"
  top :: "garmentEntry option"
  bottom :: "garmentEntry option"

datatype garmentData = Unparsable | NoData | Parsed parsedData

text \<open>
  An authenticated request to \<open>/api/generate\<close>: the user id of the token, the body
  fields, and for each upload field the path of the stored file when one was sent.
  \<open>outputCount\<close> is what \<open>parseInt\<close> makes of the field, \<open>None\<close> for \<open>NaN\<close>.
\<close>

record request =
  user :: string
  modelType :: "string option"
  garmentType :: "string option"
  outputCount :: "int option"
  seedField :: "int option"
  modelId :: "string option"
  garmentData :: garmentData
  modelImageFile :: "string option"
  singleGarmentImage :: "string option"
  topGarmentImage :: "string option"
  bottomGarmentImage :: "string option"

datatype json = JString string | JNumber nat | JSlots slots | JNull

record response =
  statusCode :: nat
  payload :: "(string \<times> json) list"

definition errorResponse :: "nat \<Rightarrow> string \<Rightarrow> response" where
  "errorResponse c m = \<lparr>statusCode = c, payload = [(''error'', JString m)]\<rparr>"

definition truthy :: "string option \<Rightarrow> bool" where
  "truthy v = (case v of None \<Rightarrow> False | Some s \<Rightarrow> s \<noteq> [])"

text \<open>\<open>String.prototype.includes\<close>.\<close>

fun includesStr :: "string \<Rightarrow> string \<Rightarrow> bool" where
  "includesStr [] sub = (sub = [])"
| "includesStr (c # cs) sub = (prefix sub (c # cs) \<or> includesStr cs sub)"

section \<open>Default images and image checks\<close>

definition defaultModels :: "(string \<times> string) list" where
  "defaultModels =
     [(''1'', ''model1.png''), (''2'', ''model2.jpeg''), (''3'', ''model3.png''),
      (''4'', ''model4.png''), (''5'', ''model5.png''), (''6'', ''model6.jpg''),
      (''7'', ''model7.jpg''), (''8'', ''model8.png'')]"

definition defaultGarments :: "(string \<times> string) list" where
  "defaultGarments =
     [(''top2'', ''top2.png''), (''top3'', ''top3.png''), (''top4'', ''top4.png''),
      (''bottom1'', ''bottom1.png''), (''dress'', ''dress.png'')]"

text \<open>
  \<open>getImagePath(type, id, file)\<close>: the uploaded file's path, else the default image of
  that id, else an error.
\<close>

definition getImagePath :: "env \<Rightarrow> string \<Rightarrow> string option \<Rightarrow> string option \<Rightarrow> string js" where
  "getImagePath e ty ident file =
     (case file of
        Some path \<Rightarrow> Inr path
      | None \<Rightarrow>
          if truthy ident then
            (case (if ty = ''model'' then map_of defaultModels (the ident)
                   else if ty = ''garment'' then map_of defaultGarments (the ident)
                   else None) of
               Some filename \<Rightarrow>
                 (let defaultPath = dirname e @ ''/defaults/'' @ filename
                  in if existsSync e defaultPath then Inr defaultPath
                     else Inl (''Default image not found: '' @ filename))
             | None \<Rightarrow> Inl (''Invalid '' @ ty @ '' ID: '' @ the ident))
          else Inl (''Invalid '' @ ty @ '' image: ''
                     @ (case ident of None \<Rightarrow> ''null'' | Some s \<Rightarrow> s)))"

definition validateImage :: "env \<Rightarrow> string \<Rightarrow> bool js" where
  "validateImage e path =
     (if includesStr path ''defaults'' then Inr True
      else (case statSize e path of
              Inl m \<Rightarrow> Inl m
            | Inr bytes \<Rightarrow>
                if bytes < 1024 then Inl ''Image file too small''
                else if bytes > 10 * 1024 * 1024 then Inl ''Image file too large''
                else Inr True))"

fun validateGarments :: "env \<Rightarrow> garment list \<Rightarrow> bool js" where
  "validateGarments e [] = Inr True"
| "validateGarments e (g # gs) =
     (case (if \<not> includesStr (imagePath g) ''defaults'' then validateImage e (imagePath g)
            else Inr True) of
        Inl m \<Rightarrow> Inl m
      | Inr ok \<Rightarrow> validateGarments e gs)"

section \<open>The submission handler\<close>

text \<open>
  The handler's steps return one of three things: a thrown error (\<open>Inl\<close>), a response
  sent by an early \<open>return\<close> (\<open>Inr (Inl r)\<close>), or a value to go on with (\<open>Inr (Inr v)\<close>).
\<close>

type_synonym 'a step = "(response + 'a) js"

definition parsed :: "garmentData \<Rightarrow> parsedData option" where
  "parsed gd = (case gd of Parsed p \<Rightarrow> Some p | _ \<Rightarrow> None)"

definition idOf :: "garmentData \<Rightarrow> string option" where
  "idOf gd = (case parsed gd of None \<Rightarrow> None | Some p \<Rightarrow> dataId p)"

definition entryIdOf :: "garmentEntry option \<Rightarrow> string option" where
  "entryIdOf en = (case en of None \<Rightarrow> None | Some t \<Rightarrow> entryId t)"

definition topOf :: "garmentData \<Rightarrow> garmentEntry option" where
  "topOf gd = (case parsed gd of None \<Rightarrow> None | Some p \<Rightarrow> top p)"

definition bottomOf :: "garmentData \<Rightarrow> garmentEntry option" where
  "bottomOf gd = (case parsed gd of None \<Rightarrow> None | Some p \<Rightarrow> bottom p)"

definition orUploaded :: "string option \<Rightarrow> string" where
  "orUploaded v = (if truthy v then the v else ''uploaded'')"

text \<open>The branch \<open>garmentType === 'single'\<close>.\<close>

definition singleGarment :: "env \<Rightarrow> request \<Rightarrow> garment list step" where
  "singleGarment e req =
     (let pgd = garmentData req;
          hasUploadedSingle = (singleGarmentImage req \<noteq> None);
          hasDefaultSingle = truthy (idOf pgd)
      in if \<not> hasUploadedSingle \<and> \<not> hasDefaultSingle
         then Inr (Inl (errorResponse 400 ''Single garment image is required.''))
         else
           (let gt = (case parsed pgd of
                        None \<Rightarrow> ''top''
                      | Some p \<Rightarrow>
                          if truthy (dataGarmentType p) then the (dataGarmentType p)
                          else if truthy (dataId p) then
                            (if includesStr (the (dataId p)) ''bottom'' then ''bottom''
                             else if includesStr (the (dataId p)) ''dress'' then ''dress''
                             else ''top'')
                          else ''top'')
            in case getImagePath e ''garment''
                      (if hasDefaultSingle then idOf pgd else None) (singleGarmentImage req) of
                 Inl m \<Rightarrow> Inl m
               | Inr garmentImagePath \<Rightarrow>
                   Inr (Inr [\<lparr>type = gt, imagePath = garmentImagePath,
                              garmentId = orUploaded (idOf pgd)\<rparr>])))"

text \<open>
  The branch \<open>garmentType === 'multiple'\<close>.  With a top present the handler reads
  \<open>parsedGarmentData.top\<close> unguarded, which throws when there is no garment data.
\<close>

definition topGarment :: "env \<Rightarrow> request \<Rightarrow> garment list js" where
  "topGarment e req =
     (case garmentData req of
        Parsed p \<Rightarrow>
          (let topType =
                 (case top p of
                    None \<Rightarrow> ''top''
                  | Some t \<Rightarrow>
                      if truthy (entryGarmentType t) then the (entryGarmentType t)
                      else if truthy (entryId t) then
                        (if includesStr (the (entryId t)) ''dress'' then ''dress'' else ''top'')
                      else ''top'')
           in case getImagePath e ''garment''
                     (if truthy (entryIdOf (top p)) then entryIdOf (top p) else None)
                     (topGarmentImage req) of
                Inl m \<Rightarrow> Inl m
              | Inr topImagePath \<Rightarrow>
                  Inr [\<lparr>type = topType, imagePath = topImagePath,
                        garmentId = orUploaded (entryIdOf (top p))\<rparr>])
      | _ \<Rightarrow> Inl ''Cannot read properties of undefined (reading 'top')'')"

definition bottomGarment :: "env \<Rightarrow> request \<Rightarrow> garment list js" where
  "bottomGarment e req =
     (let pgd = garmentData req
      in case getImagePath e ''garment''
                (if truthy (entryIdOf (bottomOf pgd)) then entryIdOf (bottomOf pgd) else None)
                (bottomGarmentImage req) of
           Inl m \<Rightarrow> Inl m
         | Inr bottomImagePath \<Rightarrow>
             Inr [\<lparr>type = ''bottom'', imagePath = bottomImagePath,
                   garmentId = orUploaded (entryIdOf (bottomOf pgd))\<rparr>])"

definition multipleGarments :: "env \<Rightarrow> request \<Rightarrow> garment list step" where
  "multipleGarments e req =
     (let pgd = garmentData req;
          hasTop = (topGarmentImage req \<noteq> None \<or> truthy (entryIdOf (topOf pgd)));
          hasBottom = (bottomGarmentImage req \<noteq> None \<or> truthy (entryIdOf (bottomOf pgd)))
      in if \<not> hasTop \<and> \<not> hasBottom
         then Inr (Inl (errorResponse 400
                          ''At least one garment (top or bottom) is required.''))
         else
           (case (if hasTop then topGarment e req else Inr []) of
              Inl m \<Rightarrow> Inl m
            | Inr gs \<Rightarrow>
                if hasBottom \<and> \<not> (gs \<noteq> [] \<and> type (hd gs) = ''dress'')
                then (case bottomGarment e req of
                        Inl m \<Rightarrow> Inl m
                      | Inr b \<Rightarrow> Inr (Inr (gs @ b)))
                else Inr (Inr gs)))"

definition hasModel :: "request \<Rightarrow> bool" where
  "hasModel req =
     (modelImageFile req \<noteq> None \<or> (modelType req = Some ''default'' \<and> truthy (modelId req)))"

definition newJob :: "nat \<Rightarrow> string \<Rightarrow> garment list \<Rightarrow> string \<Rightarrow> job" where
  "newJob now modelImagePath gs uid =
     \<lparr>status = Processing, progress = 0,
      message = ''Starting Vella virtual try-on generation...'', results = None,
      startTime = now, modelImage = modelImagePath, garments = gs,
      isDefaultModel = includesStr modelImagePath ''defaults'', userId = uid,
      error = None, completedTime = None\<rparr>"

definition startedResponse :: "string \<Rightarrow> response" where
  "startedResponse requestId =
     \<lparr>statusCode = 200,
      payload = [(''message'',
                    JString ''Vella virtual try-on generation started successfully''),
                 (''requestId'', JString requestId), (''status'', JString ''processing'')]\<rparr>"

text \<open>The garments of the request, by the \<open>garmentType\<close> field of the body.\<close>

definition collectGarments :: "env \<Rightarrow> request \<Rightarrow> garment list step" where
  \<open>collectGarments e req =
     (if garmentType req = Some ''single'' then singleGarment e req
      else if garmentType req = Some ''multiple'' then multipleGarments e req
      else Inr (Inl (errorResponse 400
             ''Invalid garment type. Must be "single" or "multiple".'')))\<close>

text \<open>
  The body of the handler's \<open>try\<close>, up to the response: the registry is written once, under
  the decimal digits of the clock reading \<open>now\<close>, after every check has passed.
\<close>

definition generateTry :: "env \<Rightarrow> nat \<Rightarrow> registry \<Rightarrow> request \<Rightarrow> (response \<times> registry) js" where
  "generateTry e now jobs req =
     (if garmentData req = Unparsable
      then Inr (errorResponse 400 ''Invalid garment data format'', jobs)
      else if \<not> hasModel req
      then Inr (errorResponse 400 ''Model image is required.'', jobs)
      else
        (case collectGarments e req of
           Inl m \<Rightarrow> Inl m
         | Inr (Inl early) \<Rightarrow> Inr (early, jobs)
         | Inr (Inr gs) \<Rightarrow>
             (case getImagePath e ''model''
                     (if modelType req = Some ''default'' then modelId req else None)
                     (modelImageFile req) of
                Inl m \<Rightarrow> Inl m
              | Inr modelImagePath \<Rightarrow>
                  (case (case (if \<not> includesStr modelImagePath ''defaults''
                               then validateImage e modelImagePath else Inr True) of
                           Inl m \<Rightarrow> Inl m
                         | Inr ok \<Rightarrow> validateGarments e gs) of
                     Inl validationError \<Rightarrow> Inr (errorResponse 400 validationError, jobs)
                   | Inr ok \<Rightarrow>
                       (let requestId = decimal now
                        in Inr (startedResponse requestId,
                                jobs(requestId \<mapsto>
                                  newJob now modelImagePath gs (user req))))))))"

text \<open>
  The handler of \<open>POST /api/generate\<close>: the response it sends and the registry it leaves.
  The pipeline is started after the response and is not awaited.
\<close>

definition generate :: "env \<Rightarrow> nat \<Rightarrow> registry \<Rightarrow> request \<Rightarrow> response \<times> registry" where
  "generate e now jobs req =
     (case generateTry e now jobs req of
        Inl m \<Rightarrow> (errorResponse 500 (''Failed to start generation: '' @ m), jobs)
      | Inr out \<Rightarrow> out)"

section \<open>The status handler\<close>

text \<open>
  The handler of \<open>GET /api/status/:requestId\<close> for the user id of the token: the response
  and the registry after the call.  \<open>res.json\<close> leaves out a property that is
  \<open>undefined\<close>.
\<close>

definition getStatus :: "registry \<Rightarrow> string \<Rightarrow> string \<Rightarrow> response \<times> registry" where
  "getStatus jobs requestId uid =
     (case jobs requestId of
        None \<Rightarrow> (errorResponse 404 ''Job not found'', jobs)
      | Some j \<Rightarrow>
          if userId j \<noteq> uid then (errorResponse 403 ''Access denied'', jobs)
          else if status j = Failed then
            (\<lparr>statusCode = 500,
              payload = (''status'', JString ''failed'')
                        # (case error j of None \<Rightarrow> [] | Some m \<Rightarrow> [(''error'', JString m)])\<rparr>,
             jobs)
          else if status j = Completed then
            (\<lparr>statusCode = 200,
              payload = [(''status'', JString ''completed''), (''progress'', JNumber 100),
                         (''message'', JString (message j)),
                         (''results'',
                          (case results j of None \<Rightarrow> JNull | Some sl \<Rightarrow> JSlots sl))]\<rparr>,
             jobs)
          else
            (\<lparr>statusCode = 200,
              payload = [(''status'', JString ''processing''),
                         (''progress'', JNumber (progress j)),
                         (''message'', JString (message j))]\<rparr>,
             jobs))"

section \<open>Vocabulary for the properties of the pipeline and the handlers\<close>

text \<open>The job values that the pipeline stores at its first three checkpoints.\<close>

definition job20 :: "job \<Rightarrow> job" where
  "job20 j = j\<lparr>progress := 20, message := ''Preparing images for Vella AI...''\<rparr>"

definition job40 :: "job \<Rightarrow> job" where
  "job40 j = j\<lparr>progress := 40, message := ''Running Vella AI model...''\<rparr>"

definition job80 :: "job \<Rightarrow> job" where
  "job80 j = j\<lparr>progress := 80, message := ''Processing results...''\<rparr>"

text \<open>The references under which the images of a job are stored.\<close>

definition pngRef :: "string \<Rightarrow> string \<Rightarrow> nat \<Rightarrow> string" where
  "pngRef uid rid i = ''/outputs/'' @ uid @ ''/'' @ tryonFile rid i ''.png''"

definition extraRef :: "string \<Rightarrow> string \<Rightarrow> string \<Rightarrow> string" where
  "extraRef uid name rid = ''/outputs/'' @ uid @ ''/'' @ name @ rid @ ''.jpg''"

text \<open>
  The two service objects: the server's \<open>ReplicateVellaService\<close>, and the same backend
  call with the materializer of the service module.
\<close>

definition serverService :: "env \<Rightarrow> service" where
  "serverService e =
     \<lparr>virtualTryOn = virtualTryOn_server e, imageBufferOf = getImageBuffer_server e\<rparr>"

definition moduleService :: "env \<Rightarrow> service" where
  "moduleService e = \<lparr>virtualTryOn = virtualTryOn_server e, imageBufferOf = getImageBuffer e\<rparr>"

text \<open>
  A request names a garment when it uploads one under any of the three garment fields or
  gives a default garment id in its garment data.
\<close>

definition garmentPresent :: "request \<Rightarrow> bool" where
  "garmentPresent req =
     (singleGarmentImage req \<noteq> None \<or> topGarmentImage req \<noteq> None
      \<or> bottomGarmentImage req \<noteq> None \<or> truthy (idOf (garmentData req))
      \<or> truthy (entryIdOf (topOf (garmentData req)))
      \<or> truthy (entryIdOf (bottomOf (garmentData req))))"

definition statusName :: "jobStatus \<Rightarrow> string" where
  "statusName s = (case s of Processing \<Rightarrow> ''processing'' | Completed \<Rightarrow> ''completed''
                   | Failed \<Rightarrow> ''failed'')"


section \<open>Example inputs\<close>

text \<open>
  An environment in which every drawing succeeds, every download times out and the
  backend answers with one URL; and three variants: \<open>canvas\<close> cannot be loaded, the
  enhanced product image cannot be drawn, the backend answers with a stream that breaks.
\<close>

definition exampleEnv :: env where
  "exampleEnv =
     \<lparr>canvasMockImage = Inr [137, 80, 78, 71],
      axiosGet = (\<lambda>url. Inl ''timeout of 30000ms exceeded''),
      createMockResultImage = (\<lambda>m gs i. Inr [255, 216, 255]),
      createProfessionalEnhancedProduct = (\<lambda>gs. Inr [255, 216, 1]),
      createProfessionalProductBack = (\<lambda>gs. Inr [255, 216, 2]),
      createModelBackView = (\<lambda>front uid. Inr [255, 216, 3]),
      readFile = (\<lambda>path. Inr [1, 2, 3]),
      replicateRun = Inr (OutputArray [StringItem ''https://host/x.png'']),
      dirname = ''/app'',
      existsSync = (\<lambda>path. True),
      statSize = (\<lambda>path. Inr 2048)\<rparr>"

definition noCanvasEnv :: env where
  "noCanvasEnv = exampleEnv\<lparr>canvasMockImage := Inl ''Cannot find module canvas''\<rparr>"

definition noExtrasEnv :: env where
  "noExtrasEnv =
     exampleEnv\<lparr>createProfessionalEnhancedProduct := (\<lambda>gs. Inl ''out of memory'')\<rparr>"

definition brokenStreamEnv :: env where
  "brokenStreamEnv =
     exampleEnv\<lparr>replicateRun := Inr (OutputArray [Stream (Inl ''aborted'')])\<rparr>"

text \<open>A request with an uploaded model and one uploaded garment, and the job it creates.\<close>

definition exampleRequest :: request where
  "exampleRequest =
     \<lparr>user = ''alice'', modelType = Some ''upload'', garmentType = Some ''single'',
      outputCount = Some 1, seedField = None, modelId = None, garmentData = NoData,
      modelImageFile = Some ''uploads/modelImage-1.png'',
      singleGarmentImage = Some ''uploads/singleGarmentImage-2.png'',
      topGarmentImage = None, bottomGarmentImage = None\<rparr>"

definition exampleJob :: job where
  "exampleJob =
     newJob 17 ''uploads/modelImage-1.png''
       [\<lparr>type = ''top'', imagePath = ''uploads/singleGarmentImage-2.png'',
         garmentId = ''uploaded''\<rparr>] ''alice''"

definition failedJob :: job where
  "failedJob = failJob exampleJob ''Virtual try-on failed: boom'' 99"

definition exampleOptions :: options where
  "exampleOptions = \<lparr>numOutputs = 1, seed = None\<rparr>"

section \<open>Properties of the classifier\<close>

lemma list_ex_type: "list_ex (\<lambda>g. type g = t) gs \<longleftrightarrow> t \<in> type ` set gs"
  by (auto simp: list_ex_iff)

text \<open>
  Claim C1.  The classifier is a total function of the garment list whose value is fixed
  by the set of garment types that occur in the list, following the precedence
  dress, top and bottom, top and outer, top, bottom, outer, and otherwise the default
  \<open>top\<close>; two lists with the same types, in any order and with any repetition, are
  classified alike.
\<close>

theorem determineGarmentType_precedence:
  "determineGarmentType gs =
     (if ''dress'' \<in> type ` set gs then ''dress''
      else if ''top'' \<in> type ` set gs \<and> ''bottom'' \<in> type ` set gs then ''top_bottom''
      else if ''top'' \<in> type ` set gs \<and> ''outer'' \<in> type ` set gs then ''top_outer''
      else if ''top'' \<in> type ` set gs then ''top''
      else if ''bottom'' \<in> type ` set gs then ''bottom''
      else if ''outer'' \<in> type ` set gs then ''outer''
      else ''top'')
   \<and> (type ` set hs = type ` set gs \<longrightarrow> determineGarmentType hs = determineGarmentType gs)
   \<and> (mset hs = mset gs \<longrightarrow> determineGarmentType hs = determineGarmentType gs)"
proof -
  have same: "determineGarmentType hs = determineGarmentType gs"
    if "type ` set hs = type ` set gs" for hs gs
    using that by (simp add: determineGarmentType_def list_ex_type)
  have "set hs = set gs" if "mset hs = mset gs"
    using that by (metis set_mset_mset)
  then show ?thesis
    using same by (simp add: determineGarmentType_def list_ex_type)
qed

theorem determineGarmentType_precedence_witness:
  "determineGarmentType
     [\<lparr>type = ''bottom'', imagePath = ''b.png'', garmentId = ''bottom1''\<rparr>,
      \<lparr>type = ''top'', imagePath = ''t.png'', garmentId = ''top2''\<rparr>] = ''top_bottom''
   \<and> determineGarmentType
     [\<lparr>type = ''top'', imagePath = ''t.png'', garmentId = ''top2''\<rparr>,
      \<lparr>type = ''bottom'', imagePath = ''b.png'', garmentId = ''bottom1''\<rparr>] = ''top_bottom''
   \<and> determineGarmentType [] = ''top''"
  using determineGarmentType_precedence
    [of "[\<lparr>type = ''bottom'', imagePath = ''b.png'', garmentId = ''bottom1''\<rparr>,
          \<lparr>type = ''top'', imagePath = ''t.png'', garmentId = ''top2''\<rparr>]"
        "[\<lparr>type = ''top'', imagePath = ''t.png'', garmentId = ''top2''\<rparr>,
          \<lparr>type = ''bottom'', imagePath = ''b.png'', garmentId = ''bottom1''\<rparr>]"]
    determineGarmentType_precedence [of "[]" "[]"]
  by simp

section \<open>Properties of the normalizers\<close>

lemma pushObject_append: "pushObject i u acc = acc @ pushObject i u []"
  by (cases "(i, u, acc)" rule: pushObject.cases) auto

lemma pushObject_server_append: "pushObject_server i u acc = acc @ pushObject_server i u []"
  by (cases "(i, u, acc)" rule: pushObject_server.cases) (auto split: sum.splits)

lemma processItem_ok:
  "\<not> streamFails item \<Longrightarrow> processItem i item acc = Inr (acc @ itemRecords i item)"
  by (cases item rule: streamFails.cases)
     (auto simp: itemRecords_def streamToBuffer_def pushObject_append [of _ _ acc])

lemma processItem_fail:
  "streamFails item \<Longrightarrow> \<exists>e. processItem i item acc = Inl e"
  by (cases item rule: streamFails.cases) (auto simp: streamToBuffer_def)

lemma processItems_ok:
  "\<not> list_ex streamFails items \<Longrightarrow>
   processItems i items acc =
     Inr (acc @ concat (map (\<lambda>(j, x). itemRecords j x) (enumerate i items)))"
proof (induction items arbitrary: i acc)
  case Nil
  then show ?case by simp
next
  case (Cons x xs)
  then show ?case by (simp add: processItem_ok)
qed

lemma processItems_fail:
  "list_ex streamFails items \<Longrightarrow> \<exists>e. processItems i items acc = Inl e"
proof (induction items arbitrary: i acc)
  case Nil
  then show ?case by simp
next
  case (Cons x xs)
  show ?case
  proof (cases "streamFails x")
    case True
    then obtain e where "processItem i x acc = Inl e" using processItem_fail by blast
    then show ?thesis by simp
  next
    case False
    with Cons.prems have "list_ex streamFails xs" by simp
    with Cons.IH False show ?thesis by (simp add: processItem_ok)
  qed
qed

lemma unproductive_itemRecords: "unproductive item \<Longrightarrow> itemRecords i item = []"
  by (cases item rule: unproductive.cases) (auto simp: itemRecords_def)

lemma unproductive_not_fails: "unproductive item \<Longrightarrow> \<not> streamFails item"
  by (cases item rule: unproductive.cases) auto

lemma unproductive_all:
  "list_all unproductive items \<Longrightarrow>
   concat (map (\<lambda>(j, x). itemRecords j x) (enumerate i items)) = []"
  by (induction items arbitrary: i) (auto simp: unproductive_itemRecords)

lemma unproductive_all_not_fails: "list_all unproductive items \<Longrightarrow> \<not> list_ex streamFails items"
  by (induction items) (auto simp: unproductive_not_fails)

lemma processSingle_unproductive: "nothingProduced (OutputSingle item) \<Longrightarrow> processSingle item = []"
  by (cases item rule: unproductive.cases) auto

text \<open>
  Claim C2, amended.  The module's normalizer raises exactly when its output is an array
  holding a stream whose draining fails, and the error it raises carries the prefix
  \<open>Failed to process results\<close>.  In every other case it returns a non-empty list of
  records.  When nothing was collected (an empty array, only unrecognized items, only
  failing resolvers) it returns the one mock record, which is marked mock and has index 0.
\<close>

theorem processReplicateOutput_raises_only_on_stream_error:
  "(arrayStreamFails out \<longrightarrow>
      (\<exists>e. processReplicateOutput out = Inl (''Failed to process results: '' @ e)))
   \<and> (\<not> arrayStreamFails out \<longrightarrow>
      (\<exists>rs. processReplicateOutput out = Inr rs \<and> rs \<noteq> []))
   \<and> (nothingProduced out \<longrightarrow>
      processReplicateOutput out = Inr createMockResults)
   \<and> length createMockResults = 1 \<and> isMock (hd createMockResults)
   \<and> index (hd createMockResults) = 0"
proof (cases out)
  case (OutputArray items)
  have a: "\<exists>e. processReplicateOutput out = Inl (''Failed to process results: '' @ e)"
    if h: "list_ex streamFails items"
  proof -
    obtain e where "processItems 0 items [] = Inl e"
      using processItems_fail [OF h] by blast
    then show ?thesis by (simp add: processReplicateOutput_def OutputArray)
  qed
  have b: "\<exists>rs. processReplicateOutput out = Inr rs \<and> rs \<noteq> []"
    if "\<not> list_ex streamFails items"
    using processItems_ok [OF that, of 0 "[]"]
    by (simp add: processReplicateOutput_def OutputArray createMockResults_def)
  have c: "processReplicateOutput out = Inr createMockResults"
    if "list_all unproductive items"
    using processItems_ok [OF unproductive_all_not_fails [OF that], of 0 "[]"]
      unproductive_all [OF that, of 0]
    by (simp add: processReplicateOutput_def OutputArray)
  show ?thesis using a b c by (simp add: OutputArray createMockResults_def)
next
  case (OutputSingle item)
  have c: "processReplicateOutput out = Inr createMockResults"
    if "nothingProduced (OutputSingle item)"
    using processSingle_unproductive [OF that]
    by (simp add: processReplicateOutput_def OutputSingle)
  have b: "\<exists>rs. processReplicateOutput out = Inr rs \<and> rs \<noteq> []"
    by (simp add: processReplicateOutput_def OutputSingle createMockResults_def)
  show ?thesis using b c by (simp add: OutputSingle createMockResults_def)
qed

theorem processReplicateOutput_raises_only_on_stream_error_witness:
  "processReplicateOutput
     (OutputArray [OtherItem, ObjectItem (Fn ''url() {}'' (Inl ''expired''))]) =
   Inr createMockResults
   \<and> processReplicateOutput (OutputArray []) = Inr createMockResults
   \<and> (\<exists>e. processReplicateOutput (OutputArray [Stream (Inl ''socket hang up'')]) =
       Inl (''Failed to process results: '' @ e))"
  using processReplicateOutput_raises_only_on_stream_error
    [of "OutputArray [OtherItem, ObjectItem (Fn ''url() {}'' (Inl ''expired''))]"]
    processReplicateOutput_raises_only_on_stream_error [of "OutputArray []"]
    processReplicateOutput_raises_only_on_stream_error
    [of "OutputArray [Stream (Inl ''socket hang up'')]"]
  by simp

text \<open>
  Claim C2 as stated fails: an array whose only item is a stream that errors makes the
  normalizer raise.
\<close>

theorem processReplicateOutput_raises_counterexample:
  "processReplicateOutput (OutputArray [Stream (Inl ''socket hang up'')]) =
   Inl ''Failed to process results: socket hang up''"
  by (simp add: processReplicateOutput_def streamToBuffer_def)

lemma processItem_server_ok:
  "\<not> streamFails item \<Longrightarrow>
   processItem_server i item acc = Inr (acc @ itemRecords_server i item)"
  by (cases item rule: streamFails.cases)
     (auto simp: itemRecords_server_def streamToBuffer_def pushObject_server_append [of _ _ acc])

lemma processItems_server_ok:
  "\<not> list_ex streamFails items \<Longrightarrow>
   processItems_server i items acc =
     Inr (acc @ concat (map (\<lambda>(j, x). itemRecords_server j x) (enumerate i items)))"
proof (induction items arbitrary: i acc)
  case Nil
  then show ?case by simp
next
  case (Cons x xs)
  then show ?case by (simp add: processItem_server_ok)
qed

lemma array_ok:
  "\<not> list_ex streamFails items \<Longrightarrow>
   processReplicateOutput (OutputArray items) =
     Inr (orMock (concat (map (\<lambda>(i, x). itemRecords i x) (enumerate 0 items))))"
  using processItems_ok [of items 0 "[]"]
  by (simp add: processReplicateOutput_def orMock_def)

lemma array_server_ok:
  "\<not> list_ex streamFails items \<Longrightarrow>
   processReplicateOutput_server (OutputArray items) =
     Inr (orMock (concat (map (\<lambda>(i, x). itemRecords_server i x) (enumerate 0 items))))"
  using processItems_server_ok [of items 0 "[]"]
  by (simp add: processReplicateOutput_server_def orMock_def)

lemma single_server: 
  "processReplicateOutput_server (OutputSingle x) = processReplicateOutput_server (OutputArray [x])"
  by (cases x) (auto simp: processReplicateOutput_server_def split: sum.splits)

lemma single_module:
  "\<not> isStreamItem x \<Longrightarrow>
   processReplicateOutput (OutputSingle x) = processReplicateOutput (OutputArray [x])"
  by (cases x) (auto simp: processReplicateOutput_def split: sum.splits)

lemma table_module:
  "itemRecords i (Stream (Inr chunks)) = [streamResult (concat chunks) i]"
  "itemRecords i (StringItem s) = [urlResult (Str s) i]"
  "itemRecords i (ObjectItem (Fn src (Inr v))) = [urlResult v i]"
  "itemRecords i (ObjectItem (Fn src (Inl e))) = []"
  "itemRecords i (ObjectItem (Str s)) = (if s = [] then [] else [urlResult (Str s) i])"
  "itemRecords i (ObjectItem (NonStr s)) = []"
  "itemRecords i (ObjectItem Nullish) = []"
  "itemRecords i OtherItem = []"
  by (simp_all add: itemRecords_def streamToBuffer_def)

lemma table_server:
  "itemRecords_server i (Stream (Inr chunks)) = [streamResult (concat chunks) i]"
  "itemRecords_server i (StringItem s) = [urlResult (Str s) i]"
  "itemRecords_server i (ObjectItem (Fn src (Inr (Str s)))) = [urlResult (Str s) i]"
  "itemRecords_server i (ObjectItem (Fn src (Inr (NonStr s)))) = [urlResult (Str s) i]"
  "itemRecords_server i (ObjectItem (Fn src (Inr Nullish))) = []"
  "itemRecords_server i (ObjectItem (Fn src (Inl e))) = []"
  "itemRecords_server i (ObjectItem (Str s)) = (if s = [] then [] else [urlResult (Str s) i])"
  "itemRecords_server i (ObjectItem (NonStr s)) = []"
  "itemRecords_server i (ObjectItem Nullish) = []"
  "itemRecords_server i OtherItem = []"
  by (simp_all add: itemRecords_server_def streamToBuffer_def)

text \<open>
  Claim C5, amended.  When no stream of an array output fails, both normalizers return
  the records of the items, each determined by its own item and position alone, in item
  order (or the mock record when there is none).  The server treats a single value as a
  one-element array, and so does the module for a value that is not a stream.  Per shape:
  a stream gives an inline record with the concatenated chunks, mime \<open>image/png\<close>, not
  mock; a string gives a remote record with that string; a resolver that returns a string
  gives a remote record with that string, and one that throws gives nothing; a static
  \<open>url\<close> gives a remote record when it is a non-empty string; every other shape gives
  nothing.
\<close>

theorem normalize_maps_items_by_shape:
  "(\<not> list_ex streamFails items \<longrightarrow>
      processReplicateOutput (OutputArray items) =
        Inr (orMock (concat (map (\<lambda>(i, x). itemRecords i x) (enumerate 0 items))))
      \<and> processReplicateOutput_server (OutputArray items) =
        Inr (orMock (concat (map (\<lambda>(i, x). itemRecords_server i x) (enumerate 0 items)))))
   \<and> processReplicateOutput_server (OutputSingle x) =
       processReplicateOutput_server (OutputArray [x])
   \<and> (\<not> isStreamItem x \<longrightarrow>
       processReplicateOutput (OutputSingle x) = processReplicateOutput (OutputArray [x]))
   \<and> itemRecords i (Stream (Inr chunks)) = [streamResult (concat chunks) i]
   \<and> itemRecords_server i (Stream (Inr chunks)) = [streamResult (concat chunks) i]
   \<and> itemRecords i (StringItem s) = [urlResult (Str s) i]
   \<and> itemRecords_server i (StringItem s) = [urlResult (Str s) i]
   \<and> itemRecords i (ObjectItem (Fn src (Inr (Str s)))) = [urlResult (Str s) i]
   \<and> itemRecords_server i (ObjectItem (Fn src (Inr (Str s)))) = [urlResult (Str s) i]
   \<and> itemRecords i (ObjectItem (Fn src (Inl e))) = []
   \<and> itemRecords_server i (ObjectItem (Fn src (Inl e))) = []
   \<and> itemRecords i (ObjectItem (Str s)) = (if s = [] then [] else [urlResult (Str s) i])
   \<and> itemRecords_server i (ObjectItem (Str s)) =
       (if s = [] then [] else [urlResult (Str s) i])
   \<and> itemRecords i (ObjectItem (NonStr s)) = [] \<and> itemRecords i (ObjectItem Nullish) = []
   \<and> itemRecords i OtherItem = []
   \<and> itemRecords_server i (ObjectItem (NonStr s)) = []
   \<and> itemRecords_server i (ObjectItem Nullish) = []
   \<and> itemRecords_server i OtherItem = []
   \<and> imageBuffer (streamResult b i) = Some b \<and> mimeType (streamResult b i) = ''image/png''
   \<and> \<not> isMock (streamResult b i) \<and> index (streamResult b i) = i
   \<and> imageBuffer (urlResult u i) = None \<and> imageUrl (urlResult u i) = u
   \<and> \<not> isMock (urlResult u i) \<and> index (urlResult u i) = i"
  using array_ok [of items] array_server_ok [of items] single_server [of x] single_module [of x]
  by (simp add: table_module table_server streamResult_def urlResult_def)

theorem normalize_maps_items_by_shape_witness:
  "processReplicateOutput
     (OutputArray [Stream (Inr [[1, 2], [3]]), StringItem ''https://host/x.png'',
        ObjectItem (Fn ''url() {}'' (Inl ''expired'')), ObjectItem (Str ''https://host/y.png''),
        OtherItem]) =
   Inr [streamResult [1, 2, 3] 0, urlResult (Str ''https://host/x.png'') 1,
        urlResult (Str ''https://host/y.png'') 3]
   \<and> processReplicateOutput_server (OutputSingle (StringItem ''https://host/x.png'')) =
       Inr [urlResult (Str ''https://host/x.png'') 0]"
  using normalize_maps_items_by_shape
    [of "[Stream (Inr [[1, 2], [3]]), StringItem ''https://host/x.png'',
        ObjectItem (Fn ''url() {}'' (Inl ''expired'')), ObjectItem (Str ''https://host/y.png''),
        OtherItem]" "StringItem ''https://host/x.png''"]
    normalize_maps_items_by_shape
    [of "[StringItem ''https://host/x.png'']" "StringItem ''https://host/x.png''"]
  by (simp add: table_module table_server orMock_def enumerate_eq_zip upt_rec numeral_3_eq_3)

text \<open>
  Claim C5 as stated fails: a failing stream makes the whole call raise, so the string
  item before it yields no record; and an object whose static \<open>url\<close> is the empty
  string is skipped.
\<close>

theorem normalize_abort_counterexample:
  "processReplicateOutput
     (OutputArray [StringItem ''https://host/x.png'', Stream (Inl ''aborted'')]) =
   Inl ''Failed to process results: aborted''
   \<and> processReplicateOutput_server
     (OutputArray [StringItem ''https://host/x.png'', Stream (Inl ''aborted'')]) =
   Inl ''Failed to process results: aborted''
   \<and> processReplicateOutput (OutputArray [ObjectItem (Str '''')]) = Inr createMockResults"
  by (simp add: processReplicateOutput_def processReplicateOutput_server_def streamToBuffer_def)

section \<open>Decimal digits and stored references\<close>

lemma digitChar_inj: "a < 10 \<Longrightarrow> b < 10 \<Longrightarrow> digitChar a = digitChar b \<Longrightarrow> a = b"
proof -
  assume a: "a < 10" and b: "b < 10" and eq: "digitChar a = digitChar b"
  have d: "distinct ''0123456789''" by simp
  have "a < length ''0123456789''" "b < length ''0123456789''" using a b by simp_all
  with d eq show "a = b" unfolding digitChar_def by (simp only: nth_eq_iff_index_eq)
qed

lemma decimal_nonempty: "decimal n \<noteq> []"
  by (subst decimal.simps) simp

lemma decimal_inj: "decimal m = decimal n \<Longrightarrow> m = n"
proof (induction m arbitrary: n rule: less_induct)
  case (less m)
  show ?case
  proof (cases "m < 10")
    case True
    note m = True
    show ?thesis
    proof (cases "n < 10")
      case True
      with m less.prems show ?thesis
        by (simp add: decimal.simps [of m] decimal.simps [of n] digitChar_inj)
    next
      case False
      with m less.prems decimal_nonempty [of "n div 10"] show ?thesis
        by (simp add: decimal.simps [of m] decimal.simps [of n])
    qed
  next
    case False
    note m = False
    show ?thesis
    proof (cases "n < 10")
      case True
      with m less.prems decimal_nonempty [of "m div 10"] show ?thesis
        by (simp add: decimal.simps [of m] decimal.simps [of n])
    next
      case False
      with m less.prems have e: "decimal (m div 10) = decimal (n div 10)"
        and d: "digitChar (m mod 10) = digitChar (n mod 10)"
        by (simp_all add: decimal.simps [of m] decimal.simps [of n])
      from m have "m div 10 < m" by simp
      from less.IH [OF this e] have q: "m div 10 = n div 10" .
      from d have r: "m mod 10 = n mod 10" by (simp add: digitChar_inj)
      from q r show ?thesis by (metis div_mult_mod_eq)
    qed
  qed
qed

lemma tryonSlot_inj: "tryonSlot m = tryonSlot n \<Longrightarrow> m = n"
  using decimal_inj [of "m + 1" "n + 1"] by (simp add: tryonSlot_def)

lemma pngRef_inj: "pngRef uid rid m = pngRef uid rid n \<Longrightarrow> m = n"
  using decimal_inj [of m n] by (simp add: pngRef_def tryonFile_def)




lemma tryonSlot_not_extra:
  "tryonSlot n \<noteq> ''enhancedProduct''" "tryonSlot n \<noteq> ''productBack''"
  "tryonSlot n \<noteq> ''modelFront''" "tryonSlot n \<noteq> ''modelBack''"
  by (simp_all add: tryonSlot_def)

lemma pngRef_not_extra:
  "pngRef uid rid n \<noteq> extraRef uid ''enhanced-'' rid"
  "pngRef uid rid n \<noteq> extraRef uid ''product-back-'' rid"
  "pngRef uid rid n \<noteq> extraRef uid ''model-back-'' rid"
  by (simp_all add: pngRef_def extraRef_def tryonFile_def)

lemma save_fst: "fst (saveGeneratedImage buf f uid d) = ''/outputs/'' @ uid @ ''/'' @ f"
  by (simp add: saveGeneratedImage_def Let_def)

lemma save_snd: "snd (saveGeneratedImage buf f uid d) = d(''/outputs/'' @ uid @ ''/'' @ f \<mapsto> buf)"
  by (simp add: saveGeneratedImage_def Let_def)

section \<open>Properties of the fallback image and the materializer\<close>

lemmas ex_defs = exampleEnv_def noCanvasEnv_def noExtrasEnv_def brokenStreamEnv_def
  moduleService_def serverService_def exampleJob_def failedJob_def exampleOptions_def
  exampleRequest_def newJob_def

lemmas run_defs = processVellaTryOn_def virtualTryOn_server_def prepareImage_def
  processReplicateOutput_server_def getImageBuffer_def getImageBuffer_server_def
  getImageBufferTry_def createMockImageBuffer_def createMockImageBuffer_server_def
  additionalImages_def saveGeneratedImage_def tryonFile_def tryonSlot_def slotSet_def
  completeJob_def failJob_def urlResult_def streamResult_def streamToBuffer_def
  createMockResults_def Let_def decimal.simps digitChar_def

lemma getImageBuffer_props:
  "(\<exists>b. getImageBuffer e r = Inr b)
   \<and> (imageBuffer r = Some b \<longrightarrow> getImageBuffer e r = Inr b)
   \<and> (imageBuffer r = None \<and> imageUrl r = Str u \<and> \<not> prefix ''mock://'' u
        \<and> (axiosGet e u = Inr None \<or> (\<exists>m. axiosGet e u = Inl m))
      \<longrightarrow> getImageBuffer e r = Inr (createMockImageBuffer e))
   \<and> (imageBuffer r = None \<and> imageUrl r = Str u \<and> \<not> prefix ''mock://'' u
        \<and> axiosGet e u = Inr (Some d)
      \<longrightarrow> getImageBuffer e r = Inr d)"
  by (auto simp: getImageBuffer_def getImageBufferTry_def
      split: sum.splits option.splits jsurl.splits)

lemma getImageBuffer_total: "\<exists>b. getImageBuffer e r = Inr b"
  using getImageBuffer_props [of e r] by blast

text \<open>
  Claim C6, amended.  The fallback image is what \<open>node-canvas\<close> encodes: when the drawing
  succeeds, both versions return exactly the encoded buffer; when it throws, the module's
  version returns the empty buffer and the server's version throws the same error.  The
  module's buffer is non-empty exactly when the drawing succeeded with a non-empty buffer.
\<close>

theorem fallback_image_follows_canvas:
  "(canvasMockImage e = Inr png \<longrightarrow>
      createMockImageBuffer e = png \<and> createMockImageBuffer_server e = Inr png)
   \<and> (canvasMockImage e = Inl m \<longrightarrow>
      createMockImageBuffer e = [] \<and> createMockImageBuffer_server e = Inl m)
   \<and> (createMockImageBuffer e \<noteq> [] \<longleftrightarrow> (\<exists>b. canvasMockImage e = Inr b \<and> b \<noteq> []))"
  by (auto simp: createMockImageBuffer_def createMockImageBuffer_server_def split: sum.splits)

theorem fallback_image_follows_canvas_witness:
  "createMockImageBuffer exampleEnv = [137, 80, 78, 71]
   \<and> createMockImageBuffer_server exampleEnv = Inr [137, 80, 78, 71]
   \<and> createMockImageBuffer_server noCanvasEnv = Inl ''Cannot find module canvas''"
proof -
  have a: "canvasMockImage exampleEnv = Inr [137, 80, 78, 71]" by (simp add: exampleEnv_def)
  have b: "canvasMockImage noCanvasEnv = Inl ''Cannot find module canvas''"
    by (simp add: noCanvasEnv_def)
  from a fallback_image_follows_canvas [of exampleEnv "[137, 80, 78, 71]"]
    b fallback_image_follows_canvas [of noCanvasEnv _ "''Cannot find module canvas''"]
  show ?thesis by blast
qed

text \<open>
  Claim C6 as stated fails: when \<open>canvas\<close> cannot be loaded, the module's fallback is the
  empty buffer.
\<close>

theorem fallback_image_empty_counterexample:
  "createMockImageBuffer noCanvasEnv = []"
  by (simp add: noCanvasEnv_def createMockImageBuffer_def)

section \<open>Properties of the pipeline\<close>

lemma materialize_total:
  "\<forall>r\<in>set rs. \<exists>b. imageBufferOf svc r = Inr b \<Longrightarrow>
   \<exists>sl' d'. materializeResults e svc j rid i rs sl d = (Inr sl', d')
     \<and> (\<forall>n<length rs. map_of sl' (tryonSlot (i + n)) = Some (pngRef (userId j) rid (i + n))
           \<and> (\<exists>b. d' (pngRef (userId j) rid (i + n)) = Some b \<and> imageBufferOf svc (rs ! n) = Inr b))
     \<and> (\<forall>k. (\<forall>n<length rs. k \<noteq> tryonSlot (i + n)) \<longrightarrow> map_of sl' k = map_of sl k)
     \<and> (\<forall>p. (\<forall>n<length rs. p \<noteq> pngRef (userId j) rid (i + n)) \<longrightarrow> d' p = d p)"
proof (induction rs arbitrary: i sl d)
  case Nil
  then show ?case by simp
next
  case (Cons r rest)
  from Cons.prems obtain b where b: "imageBufferOf svc r = Inr b" by auto
  let ?sl1 = "AList.update (tryonSlot i) (pngRef (userId j) rid i) sl"
  let ?d1 = "d(pngRef (userId j) rid i \<mapsto> b)"
  from Cons.prems have "\<forall>r\<in>set rest. \<exists>b. imageBufferOf svc r = Inr b" by simp
  from Cons.IH [OF this, of "Suc i" ?sl1 ?d1]
  obtain sl' d' where
    run: "materializeResults e svc j rid (Suc i) rest ?sl1 ?d1 = (Inr sl', d')"
    and slots: "\<And>n. n < length rest \<Longrightarrow>
       map_of sl' (tryonSlot (Suc i + n)) = Some (pngRef (userId j) rid (Suc i + n))
       \<and> (\<exists>b. d' (pngRef (userId j) rid (Suc i + n)) = Some b
             \<and> imageBufferOf svc (rest ! n) = Inr b)"
    and keep: "\<And>k. (\<forall>n<length rest. k \<noteq> tryonSlot (Suc i + n)) \<Longrightarrow> map_of sl' k = map_of ?sl1 k"
    and keepd: "\<And>p. (\<forall>n<length rest. p \<noteq> pngRef (userId j) rid (Suc i + n)) \<Longrightarrow> d' p = ?d1 p"
    by blast
  have run': "materializeResults e svc j rid i (r # rest) sl d = (Inr sl', d')"
    using run b by (simp add: save_fst save_snd pngRef_def)
  have here: "map_of sl' (tryonSlot i) = Some (pngRef (userId j) rid i)"
  proof -
    have "\<forall>n<length rest. tryonSlot i \<noteq> tryonSlot (Suc i + n)"
      using tryonSlot_inj by fastforce
    from keep [OF this] show ?thesis by (simp add: update_conv')
  qed
  have hered: "d' (pngRef (userId j) rid i) = Some b"
  proof -
    have "\<forall>n<length rest. pngRef (userId j) rid i \<noteq> pngRef (userId j) rid (Suc i + n)"
      using pngRef_inj by fastforce
    from keepd [OF this] show ?thesis by simp
  qed
  have all: "map_of sl' (tryonSlot (i + n)) = Some (pngRef (userId j) rid (i + n))
       \<and> (\<exists>b. d' (pngRef (userId j) rid (i + n)) = Some b
             \<and> imageBufferOf svc ((r # rest) ! n) = Inr b)"
    if n: "n < length (r # rest)" for n
  proof (cases n)
    case 0
    with here hered b show ?thesis by simp
  next
    case (Suc m)
    with n have "m < length rest" by simp
    from slots [OF this] Suc show ?thesis by simp
  qed
  have keep': "map_of sl' k = map_of sl k"
    if k: "\<forall>n<length (r # rest). k \<noteq> tryonSlot (i + n)" for k
  proof -
    from k have k0: "k \<noteq> tryonSlot i" by fastforce
    have "\<forall>n<length rest. k \<noteq> tryonSlot (Suc i + n)"
    proof (intro allI impI)
      fix n assume "n < length rest"
      then have "Suc n < length (r # rest)" by simp
      with k have "k \<noteq> tryonSlot (i + Suc n)" by blast
      then show "k \<noteq> tryonSlot (Suc i + n)" by simp
    qed
    from keep [OF this] k0 show ?thesis by (simp add: update_conv')
  qed
  have keepd': "d' p = d p"
    if p: "\<forall>n<length (r # rest). p \<noteq> pngRef (userId j) rid (i + n)" for p
  proof -
    from p have p0: "p \<noteq> pngRef (userId j) rid i" by fastforce
    have "\<forall>n<length rest. p \<noteq> pngRef (userId j) rid (Suc i + n)"
    proof (intro allI impI)
      fix n assume "n < length rest"
      then have "Suc n < length (r # rest)" by simp
      with p have "p \<noteq> pngRef (userId j) rid (i + Suc n)" by blast
      then show "p \<noteq> pngRef (userId j) rid (Suc i + n)" by simp
    qed
    from keepd [OF this] p0 show ?thesis by simp
  qed
  from run' all keep' keepd' show ?case by blast
qed



lemma slotSet_update:
  "slotSet (AList.update k v sl) k' = (if k' = k then v \<noteq> [] else slotSet sl k')"
  by (simp add: slotSet_def update_conv')

lemma additionalImages_unfold:
  assumes ne: "sl \<noteq> []"
    and en: "createProfessionalEnhancedProduct e (garments j) = Inr b1"
    and pb: "createProfessionalProductBack e (garments j) = Inr b2"
  shows "fst (additionalImages e j rid sl d) =
     (let sl2 = AList.update ''productBack'' (extraRef (userId j) ''product-back-'' rid)
                  (AList.update ''enhancedProduct'' (extraRef (userId j) ''enhanced-'' rid) sl);
          sl3 = (if slotSet sl ''tryonResult1''
                 then AList.update ''modelFront'' (the (map_of sl ''tryonResult1'')) sl2
                 else sl2)
      in if slotSet sl ''tryonResult2''
         then AList.update ''modelBack'' (the (map_of sl ''tryonResult2'')) sl3
         else if slotSet sl ''tryonResult1''
         then (case createModelBackView e (the (map_of sl ''tryonResult1'')) (userId j) of
                 Inl err \<Rightarrow> sl3
               | Inr b \<Rightarrow> AList.update ''modelBack'' (extraRef (userId j) ''model-back-'' rid) sl3)
         else sl3)"
  using ne
  by (simp add: additionalImages_def Let_def en pb save_fst save_snd extraRef_def
      slotSet_update update_conv' split: sum.splits)


lemma additionalImages_keeps:
  assumes "k \<noteq> ''enhancedProduct''" "k \<noteq> ''productBack''" "k \<noteq> ''modelFront''"
    "k \<noteq> ''modelBack''"
  shows "map_of (fst (additionalImages e j rid sl d)) k = map_of sl k"
proof (cases "createProfessionalEnhancedProduct e (garments j)")
  case (Inl a)
  then show ?thesis by (simp add: additionalImages_def)
next
  case en: (Inr b1)
  show ?thesis
  proof (cases "createProfessionalProductBack e (garments j)")
    case (Inl a)
    then show ?thesis using assms en by (simp add: additionalImages_def Let_def update_conv')
  next
    case pb: (Inr b2)
    show ?thesis
    proof (cases "sl = []")
      case True
      then show ?thesis by (simp add: additionalImages_def)
    next
      case False
      show ?thesis
        using assms
        by (simp add: additionalImages_unfold [OF False en pb] Let_def update_conv'
            split: sum.splits)
    qed
  qed
qed

lemma additionalImages_disk:
  assumes "p \<noteq> extraRef (userId j) ''enhanced-'' rid"
    "p \<noteq> extraRef (userId j) ''product-back-'' rid"
    "p \<noteq> extraRef (userId j) ''model-back-'' rid"
  shows "snd (additionalImages e j rid sl d) p = d p"
  using assms
  by (simp add: additionalImages_def Let_def save_snd save_fst extraRef_def
      split: sum.splits)



lemma run_completed:
  "jobs rid = Some j \<Longrightarrow> virtualTryOn svc (modelImage j) (garments j) (pipelineOptions opts) = Inr rs \<Longrightarrow>
   materializeResults e svc (job80 j) rid 0 rs [] d = (Inr sl, d1) \<Longrightarrow>
   processVellaTryOn e svc now rid opts jobs d =
     ([job20 j, job40 j, job80 j,
       completeJob (job80 j) (fst (additionalImages e (job80 j) rid sl d1)) now],
      snd (additionalImages e (job80 j) rid sl d1))"
  by (simp add: processVellaTryOn_def job20_def job40_def job80_def Let_def)


lemma pipeline_with_total_materializer:
  assumes j: "jobs rid = Some j"
    and vt: "virtualTryOn svc (modelImage j) (garments j) (pipelineOptions opts) = Inr rs"
    and tot: "\<forall>r. \<exists>b. imageBufferOf svc r = Inr b"
  shows "status (last (fst (processVellaTryOn e svc now rid opts jobs d))) = Completed
    \<and> (\<forall>n<length rs. \<exists>ref b.
          map_of (the (results (last (fst (processVellaTryOn e svc now rid opts jobs d)))))
            (tryonSlot n) = Some ref
          \<and> snd (processVellaTryOn e svc now rid opts jobs d) ref = Some b
          \<and> imageBufferOf svc (rs ! n) = Inr b)"
proof -
  from tot have "\<forall>r\<in>set rs. \<exists>b. imageBufferOf svc r = Inr b" by blast
  from materialize_total [OF this, of e "job80 j" rid 0 "[]" d]
  obtain sl' d' where
    run: "materializeResults e svc (job80 j) rid 0 rs [] d = (Inr sl', d')"
    and slots: "\<And>n. n < length rs \<Longrightarrow>
       map_of sl' (tryonSlot n) = Some (pngRef (userId j) rid n)
       \<and> (\<exists>b. d' (pngRef (userId j) rid n) = Some b \<and> imageBufferOf svc (rs ! n) = Inr b)"
    by (auto simp: job80_def)
  have whole: "processVellaTryOn e svc now rid opts jobs d =
     ([job20 j, job40 j, job80 j,
       completeJob (job80 j) (fst (additionalImages e (job80 j) rid sl' d')) now],
      snd (additionalImages e (job80 j) rid sl' d'))"
    using run_completed [where jobs=jobs and rid=rid and j=j and svc=svc and opts=opts] j vt run
    by blast
  have slot: "\<exists>ref b.
          map_of (fst (additionalImages e (job80 j) rid sl' d')) (tryonSlot n) = Some ref
          \<and> snd (additionalImages e (job80 j) rid sl' d') ref = Some b
          \<and> imageBufferOf svc (rs ! n) = Inr b" if n: "n < length rs" for n
  proof -
    from slots [OF n] obtain b where
      a: "map_of sl' (tryonSlot n) = Some (pngRef (userId j) rid n)"
      and b: "d' (pngRef (userId j) rid n) = Some b" "imageBufferOf svc (rs ! n) = Inr b"
      by blast
    have k: "map_of (fst (additionalImages e (job80 j) rid sl' d')) (tryonSlot n)
             = map_of sl' (tryonSlot n)"
      by (rule additionalImages_keeps) (rule tryonSlot_not_extra)+
    have u: "userId (job80 j) = userId j" by (simp add: job80_def)
    have p: "snd (additionalImages e (job80 j) rid sl' d') (pngRef (userId j) rid n)
             = d' (pngRef (userId j) rid n)"
      by (rule additionalImages_disk) (simp_all only: u pngRef_not_extra not_False_eq_True)
    from k a p b show ?thesis by auto
  qed
  show ?thesis using slot by (simp add: whole completeJob_def)
qed

section \<open>Example runs of the pipeline\<close>

lemma example_backend:
  "virtualTryOn_server exampleEnv m gs opts = Inr [urlResult (Str ''https://host/x.png'') 0]"
  by (induction gs)
     (simp_all add: virtualTryOn_server_def prepareImage_def exampleEnv_def
       processReplicateOutput_server_def)

lemma broken_backend:
  "virtualTryOn_server brokenStreamEnv m gs opts =
     Inl ''Virtual try-on failed: Failed to process results: aborted''"
  by (induction gs)
     (simp_all add: virtualTryOn_server_def prepareImage_def exampleEnv_def brokenStreamEnv_def
       processReplicateOutput_server_def streamToBuffer_def)

lemma example_run:
  "processVellaTryOn exampleEnv (serverService exampleEnv) 99 ''17'' exampleOptions
     [''17'' \<mapsto> exampleJob] Map.empty =
   ([job20 exampleJob, job40 exampleJob, job80 exampleJob,
     completeJob (job80 exampleJob)
       [(''tryonResult1'', ''/outputs/alice/vella-result-17-0.png''),
        (''enhancedProduct'', ''/outputs/alice/enhanced-17.jpg''),
        (''productBack'', ''/outputs/alice/product-back-17.jpg''),
        (''modelFront'', ''/outputs/alice/vella-result-17-0.png''),
        (''modelBack'', ''/outputs/alice/model-back-17.jpg'')] 99],
    [''/outputs/alice/vella-result-17-0.png'' \<mapsto> [137, 80, 78, 71],
     ''/outputs/alice/enhanced-17.jpg'' \<mapsto> [255, 216, 1],
     ''/outputs/alice/product-back-17.jpg'' \<mapsto> [255, 216, 2],
     ''/outputs/alice/model-back-17.jpg'' \<mapsto> [255, 216, 3]])"
  by (simp add: ex_defs run_defs job20_def job40_def job80_def)

lemma example_run_module:
  "processVellaTryOn exampleEnv (moduleService exampleEnv) 99 ''17'' exampleOptions
     [''17'' \<mapsto> exampleJob] Map.empty =
   processVellaTryOn exampleEnv (serverService exampleEnv) 99 ''17'' exampleOptions
     [''17'' \<mapsto> exampleJob] Map.empty"
  by (simp add: ex_defs run_defs)


lemma noCanvas_run:
  "snd (processVellaTryOn noCanvasEnv (moduleService noCanvasEnv) 99 ''17'' exampleOptions
     [''17'' \<mapsto> exampleJob] Map.empty) ''/outputs/alice/vella-result-17-0.png'' = Some []"
  by (simp add: ex_defs run_defs)


lemmas job_defs = job20_def job40_def job80_def completeJob_def failJob_def exampleJob_def
  newJob_def

section \<open>The claims about the pipeline\<close>



text \<open>
  Claim C3, amended.  The module's materializer never raises: it returns the inline bytes
  of a record that has them; and for a URL that is not a mock URL, when the download is
  rejected (timeout, network failure, a status outside 2xx) or the response has no data,
  it drops the error and returns the fallback image, which is the encoded placeholder
  whenever the drawing succeeds and the empty buffer when the drawing throws.  With this materializer, a job whose backend call
  returned reaches completed, and every result has its slot, whose reference holds on disk
  exactly the buffer the materializer returned for it.
\<close>

theorem materializer_degrades_to_fallback:
  "(\<exists>b. getImageBuffer e r = Inr b)
   \<and> (imageBuffer r = Some b \<longrightarrow> getImageBuffer e r = Inr b)
   \<and> (imageBuffer r = None \<and> imageUrl r = Str u \<and> \<not> prefix ''mock://'' u
        \<and> (axiosGet e u = Inr None \<or> (\<exists>m. axiosGet e u = Inl m))
      \<longrightarrow> getImageBuffer e r = Inr (createMockImageBuffer e))
   \<and> (canvasMockImage e = Inr png \<longrightarrow> createMockImageBuffer e = png)
   \<and> (canvasMockImage e = Inl m' \<longrightarrow> createMockImageBuffer e = [])
   \<and> (jobs rid = Some j \<and> virtualTryOn svc (modelImage j) (garments j) (pipelineOptions opts) = Inr rs
        \<and> imageBufferOf svc = getImageBuffer e
      \<longrightarrow> status (last (fst (processVellaTryOn e svc now rid opts jobs d))) = Completed
        \<and> (\<forall>n<length rs. \<exists>ref b.
              map_of (the (results (last (fst (processVellaTryOn e svc now rid opts jobs d)))))
                (tryonSlot n) = Some ref
              \<and> snd (processVellaTryOn e svc now rid opts jobs d) ref = Some b
              \<and> getImageBuffer e (rs ! n) = Inr b))"
proof -
  have pipe: "status (last (fst (processVellaTryOn e svc now rid opts jobs d))) = Completed
        \<and> (\<forall>n<length rs. \<exists>ref b.
              map_of (the (results (last (fst (processVellaTryOn e svc now rid opts jobs d)))))
                (tryonSlot n) = Some ref
              \<and> snd (processVellaTryOn e svc now rid opts jobs d) ref = Some b
              \<and> getImageBuffer e (rs ! n) = Inr b)"
    if j: "jobs rid = Some j"
      and vt: "virtualTryOn svc (modelImage j) (garments j) (pipelineOptions opts) = Inr rs"
      and svc: "imageBufferOf svc = getImageBuffer e"
  proof -
    have "\<forall>r. \<exists>b. imageBufferOf svc r = Inr b"
      using getImageBuffer_total by (simp add: svc)
    from pipeline_with_total_materializer
      [where jobs=jobs and rid=rid and j=j and svc=svc and opts=opts and rs=rs
        and e=e and now=now and d=d, OF j vt this]
    show ?thesis by (simp add: svc)
  qed
  have mock: "createMockImageBuffer e = png" if "canvasMockImage e = Inr png"
    using that by (simp add: createMockImageBuffer_def)
  have none: "createMockImageBuffer e = []" if "canvasMockImage e = Inl m'"
    using that by (simp add: createMockImageBuffer_def)
  from getImageBuffer_props [of e r b u] pipe mock none show ?thesis by blast
qed

theorem materializer_degrades_to_fallback_witness:
  "getImageBuffer exampleEnv (streamResult [1, 2] 0) = Inr [1, 2]
   \<and> getImageBuffer exampleEnv (urlResult (Str ''https://host/x.png'') 0)
       = Inr [137, 80, 78, 71]
   \<and> status (last (fst (processVellaTryOn exampleEnv (moduleService exampleEnv) 99 ''17''
        exampleOptions [''17'' \<mapsto> exampleJob] Map.empty))) = Completed
   \<and> snd (processVellaTryOn exampleEnv (moduleService exampleEnv) 99 ''17''
        exampleOptions [''17'' \<mapsto> exampleJob] Map.empty)
        ''/outputs/alice/vella-result-17-0.png'' = Some [137, 80, 78, 71]"
proof -
  have h1: "imageBuffer (streamResult [1, 2] 0) = Some [1, 2]"
    by (simp add: streamResult_def)
  have h2: "imageBuffer (urlResult (Str ''https://host/x.png'') 0) = None
     \<and> imageUrl (urlResult (Str ''https://host/x.png'') 0) = Str ''https://host/x.png''
     \<and> \<not> prefix ''mock://'' ''https://host/x.png''
     \<and> (axiosGet exampleEnv ''https://host/x.png'' = Inr None
          \<or> (\<exists>m. axiosGet exampleEnv ''https://host/x.png'' = Inl m))"
    by (simp add: urlResult_def exampleEnv_def)
  have h3: "canvasMockImage exampleEnv = Inr [137, 80, 78, 71]"
    by (simp add: exampleEnv_def)
  have h4: "[''17'' \<mapsto> exampleJob] ''17'' = Some exampleJob
     \<and> virtualTryOn (moduleService exampleEnv) (modelImage exampleJob) (garments exampleJob)
          (pipelineOptions exampleOptions) = Inr [urlResult (Str ''https://host/x.png'') 0]
     \<and> imageBufferOf (moduleService exampleEnv) = getImageBuffer exampleEnv"
    by (simp add: moduleService_def example_backend)
  from h1 materializer_degrades_to_fallback
    [where e = exampleEnv and r = "streamResult [1, 2] 0" and b = "[1, 2]"]
  have a: "getImageBuffer exampleEnv (streamResult [1, 2] 0) = Inr [1, 2]" by blast
  from h2 h3 h4 materializer_degrades_to_fallback
    [where e = exampleEnv and r = "urlResult (Str ''https://host/x.png'') 0"
       and u = "''https://host/x.png''" and png = "[137, 80, 78, 71]"
       and jobs = "[''17'' \<mapsto> exampleJob]" and rid = "''17''" and j = exampleJob
       and svc = "moduleService exampleEnv" and opts = exampleOptions
       and rs = "[urlResult (Str ''https://host/x.png'') 0]" and now = 99 and d = Map.empty]
  have b: "getImageBuffer exampleEnv (urlResult (Str ''https://host/x.png'') 0)
             = Inr [137, 80, 78, 71]
     \<and> status (last (fst (processVellaTryOn exampleEnv (moduleService exampleEnv) 99 ''17''
        exampleOptions [''17'' \<mapsto> exampleJob] Map.empty))) = Completed"
    by simp
  show ?thesis using a b unfolding example_run_module example_run fst_conv snd_conv
    by (simp add: job_defs)
qed

text \<open>
  Claim C3 as stated fails: when the download times out and \<open>canvas\<close> cannot be loaded,
  the materializer returns the empty buffer, and that is what the slot's file holds.
\<close>

theorem materializer_empty_fallback_counterexample:
  "getImageBuffer noCanvasEnv (urlResult (Str ''https://host/x.png'') 0) = Inr []
   \<and> snd (processVellaTryOn noCanvasEnv (moduleService noCanvasEnv) 99 ''17'' exampleOptions
        [''17'' \<mapsto> exampleJob] Map.empty) ''/outputs/alice/vella-result-17-0.png'' = Some []"
  by (simp add: noCanvas_run)
     (simp add: getImageBuffer_def getImageBufferTry_def createMockImageBuffer_def
        urlResult_def noCanvasEnv_def exampleEnv_def)




section \<open>Properties of the submission handler\<close>

lemma singleGarment_early:
  "singleGarment e req = Inr (Inl r) \<Longrightarrow> statusCode r = 400"
  by (auto simp: singleGarment_def Let_def errorResponse_def split: if_splits sum.splits)

lemma singleGarment_ok:
  "singleGarment e req = Inr (Inr gs) \<Longrightarrow> gs \<noteq> [] \<and> garmentPresent req"
  by (auto simp: singleGarment_def Let_def garmentPresent_def split: if_splits sum.splits)

lemma topGarment_ok: "topGarment e req = Inr gs \<Longrightarrow> gs \<noteq> []"
  by (auto simp: topGarment_def Let_def split: garmentData.splits sum.splits)

lemma bottomGarment_ok: "bottomGarment e req = Inr gs \<Longrightarrow> gs \<noteq> []"
  by (auto simp: bottomGarment_def Let_def split: sum.splits)

lemma multipleGarments_early:
  "multipleGarments e req = Inr (Inl r) \<Longrightarrow> statusCode r = 400"
  by (auto simp: multipleGarments_def Let_def errorResponse_def split: if_splits sum.splits)

lemma multipleGarments_ok:
  assumes "multipleGarments e req = Inr (Inr gs)"
  shows "gs \<noteq> [] \<and> garmentPresent req"
proof -
  let ?hasTop = "topGarmentImage req \<noteq> None \<or> truthy (entryIdOf (topOf (garmentData req)))"
  let ?hasBottom = "bottomGarmentImage req \<noteq> None
                    \<or> truthy (entryIdOf (bottomOf (garmentData req)))"
  from assms have some: "?hasTop \<or> ?hasBottom"
    by (auto simp: multipleGarments_def Let_def split: if_splits)
  then have p: "garmentPresent req" by (auto simp: garmentPresent_def)
  show ?thesis
  proof (cases ?hasTop)
    case True
    with assms obtain tg where tg: "topGarment e req = Inr tg"
      by (auto simp: multipleGarments_def Let_def split: if_splits sum.splits)
    from topGarment_ok [OF tg] have "tg \<noteq> []" .
    with assms True tg have "gs \<noteq> []"
      by (auto simp: multipleGarments_def Let_def split: if_splits sum.splits)
    with p show ?thesis by simp
  next
    case False
    with some have hb: ?hasBottom by simp
    with assms False obtain b where b: "bottomGarment e req = Inr b" "gs = b"
      by (auto simp: multipleGarments_def Let_def split: if_splits sum.splits)
    from bottomGarment_ok [OF b(1)] b(2) p show ?thesis by simp
  qed
qed

lemma collectGarments_early:
  "collectGarments e req = Inr (Inl r) \<Longrightarrow> statusCode r = 400"
  using singleGarment_early multipleGarments_early
  by (auto simp: collectGarments_def errorResponse_def split: if_splits)

lemma collectGarments_ok:
  "collectGarments e req = Inr (Inr gs) \<Longrightarrow> gs \<noteq> [] \<and> garmentPresent req"
  using singleGarment_ok multipleGarments_ok
  by (auto simp: collectGarments_def split: if_splits)

lemma collectGarments_absent:
  "\<not> garmentPresent req \<Longrightarrow> \<exists>r. collectGarments e req = Inr (Inl r) \<and> statusCode r = 400"
  by (simp add: collectGarments_def singleGarment_def multipleGarments_def garmentPresent_def
      Let_def errorResponse_def)

lemma generateTry_shape:
  "generateTry e now jobs req = Inr (r, jobs') \<Longrightarrow>
   (statusCode r = 400 \<and> jobs' = jobs)
   \<or> (\<exists>mp gs. gs \<noteq> [] \<and> hasModel req \<and> garmentPresent req
        \<and> r = startedResponse (decimal now)
        \<and> jobs' = jobs(decimal now \<mapsto> newJob now mp gs (user req)))"
proof -
  assume a: "generateTry e now jobs req = Inr (r, jobs')"
  show ?thesis
  proof (cases "garmentData req = Unparsable \<or> \<not> hasModel req")
    case True
    with a show ?thesis by (auto simp: generateTry_def errorResponse_def split: if_splits)
  next
    case False
    show ?thesis
    proof (cases "collectGarments e req")
      case (Inl m)
      with a False show ?thesis by (simp add: generateTry_def)
    next
      case (Inr x)
      show ?thesis
      proof (cases x)
        case (Inl early)
        with Inr have "statusCode early = 400" using collectGarments_early by blast
        with a False Inr Inl show ?thesis by (simp add: generateTry_def)
      next
        case gs: (Inr gs)
        with Inr have ok: "gs \<noteq> [] \<and> garmentPresent req" using collectGarments_ok by blast
        from a False Inr gs ok show ?thesis
          by (auto simp: generateTry_def Let_def errorResponse_def split: sum.splits)
      qed
    qed
  qed
qed

lemma generate_shape:
  "(statusCode (fst (generate e now jobs req)) \<noteq> 200 \<and> snd (generate e now jobs req) = jobs)
   \<or> (\<exists>mp gs. gs \<noteq> [] \<and> hasModel req \<and> garmentPresent req
        \<and> generate e now jobs req =
            (startedResponse (decimal now),
             jobs(decimal now \<mapsto> newJob now mp gs (user req))))"
proof (cases "generateTry e now jobs req")
  case (Inl m)
  then show ?thesis by (simp add: generate_def errorResponse_def)
next
  case (Inr out)
  obtain r jobs' where out: "out = (r, jobs')" by (cases out)
  from generateTry_shape [of e now jobs req r jobs'] Inr out
  show ?thesis by (auto simp: generate_def)
qed

lemma generate_rejects:
  "\<not> hasModel req \<or> \<not> garmentPresent req \<Longrightarrow>
   statusCode (fst (generate e now jobs req)) = 400 \<and> snd (generate e now jobs req) = jobs"
proof -
  assume a: "\<not> hasModel req \<or> \<not> garmentPresent req"
  show ?thesis
  proof (cases "garmentData req = Unparsable \<or> \<not> hasModel req")
    case True
    then show ?thesis by (auto simp: generate_def generateTry_def errorResponse_def)
  next
    case False
    with a have "\<not> garmentPresent req" by simp
    from collectGarments_absent [OF this, of e] obtain r where
      "collectGarments e req = Inr (Inl r)" "statusCode r = 400"
      by blast
    with False show ?thesis by (simp add: generate_def generateTry_def)
  qed
qed

lemma decimal_17: "decimal 17 = ''17''"
  by (simp add: decimal.simps digitChar_def)


lemma example_generate:
  "generate exampleEnv t jobs (exampleRequest\<lparr>user := u\<rparr>) =
     (startedResponse (decimal t),
      jobs(decimal t \<mapsto>
        newJob t ''uploads/modelImage-1.png''
          [\<lparr>type = ''top'', imagePath = ''uploads/singleGarmentImage-2.png'',
            garmentId = ''uploaded''\<rparr>] u))"
  by (simp add: generate_def generateTry_def collectGarments_def singleGarment_def
      hasModel_def truthy_def idOf_def parsed_def getImagePath_def validateImage_def
      orUploaded_def exampleRequest_def exampleEnv_def Let_def)

lemma example_generate_alice:
  "generate exampleEnv 17 Map.empty exampleRequest =
     (startedResponse ''17'', [''17'' \<mapsto> exampleJob])"
proof -
  have "exampleRequest\<lparr>user := ''alice''\<rparr> = exampleRequest"
    by (simp add: exampleRequest_def)
  with example_generate [of 17 Map.empty "''alice''"] show ?thesis
    by (simp add: decimal_17 exampleJob_def)
qed

text \<open>
  Claim C7.  A request without a model image reference or without any garment reference
  is answered with status 400 and leaves the registry as it was.  More generally every
  response other than 200 leaves the registry unchanged, and a 200 response means that the
  model and a garment were present and that exactly one job was stored, under the digits
  of the clock reading: a processing job at progress 0 for the requesting user, with a
  non-empty garment list.
\<close>

theorem generate_validates_before_registering:
  "(\<not> hasModel req \<or> \<not> garmentPresent req \<longrightarrow>
      statusCode (fst (generate e now jobs req)) = 400 \<and> snd (generate e now jobs req) = jobs)
   \<and> (statusCode (fst (generate e now jobs req)) \<noteq> 200 \<longrightarrow>
      snd (generate e now jobs req) = jobs)
   \<and> (statusCode (fst (generate e now jobs req)) = 200 \<longrightarrow>
      hasModel req \<and> garmentPresent req
      \<and> (\<exists>j. snd (generate e now jobs req) = jobs(decimal now \<mapsto> j)
            \<and> garments j \<noteq> [] \<and> userId j = user req
            \<and> status j = Processing \<and> progress j = 0))"
  using generate_rejects [of req e now jobs] generate_shape [of e now jobs req]
  by (auto simp: startedResponse_def newJob_def)

theorem generate_validates_before_registering_witness:
  "statusCode (fst (generate exampleEnv 17 Map.empty (exampleRequest\<lparr>modelImageFile := None\<rparr>)))
     = 400
   \<and> snd (generate exampleEnv 17 Map.empty (exampleRequest\<lparr>modelImageFile := None\<rparr>))
     = Map.empty
   \<and> statusCode (fst (generate exampleEnv 17 Map.empty
        (exampleRequest\<lparr>singleGarmentImage := None\<rparr>))) = 400
   \<and> snd (generate exampleEnv 17 Map.empty (exampleRequest\<lparr>singleGarmentImage := None\<rparr>))
     = Map.empty
   \<and> generate exampleEnv 17 Map.empty exampleRequest
     = (startedResponse ''17'', [''17'' \<mapsto> exampleJob])"
proof -
  have m: "\<not> hasModel (exampleRequest\<lparr>modelImageFile := None\<rparr>)
           \<or> \<not> garmentPresent (exampleRequest\<lparr>modelImageFile := None\<rparr>)"
    by (simp add: hasModel_def exampleRequest_def truthy_def)
  have g: "\<not> hasModel (exampleRequest\<lparr>singleGarmentImage := None\<rparr>)
           \<or> \<not> garmentPresent (exampleRequest\<lparr>singleGarmentImage := None\<rparr>)"
    by (simp add: garmentPresent_def exampleRequest_def truthy_def idOf_def parsed_def
        entryIdOf_def topOf_def bottomOf_def)
  note a = generate_validates_before_registering
    [of "exampleRequest\<lparr>modelImageFile := None\<rparr>" exampleEnv 17 Map.empty,
      THEN conjunct1, rule_format, OF m]
  note b = generate_validates_before_registering
    [of "exampleRequest\<lparr>singleGarmentImage := None\<rparr>" exampleEnv 17 Map.empty,
      THEN conjunct1, rule_format, OF g]
  from a b example_generate_alice show ?thesis by blast
qed




section \<open>Properties of the status handler\<close>

text \<open>
  Claim C8, amended.  A status read leaves the registry unchanged, so a repeated read
  returns the same response.  It answers 404 when no job has the id and 403 when the job
  belongs to another user.  Otherwise the response names the job's status, and carries
  \<open>results\<close> exactly when the job is completed: a processing job gives status, progress
  and message; a completed job gives status, progress 100, message and results; a failed
  job gives, with code 500, status and error only, without progress or message.
\<close>

theorem getStatus_snapshot_by_state:
  "snd (getStatus jobs rid uid) = jobs
   \<and> getStatus (snd (getStatus jobs rid uid)) rid uid = getStatus jobs rid uid
   \<and> (jobs rid = None \<longrightarrow> fst (getStatus jobs rid uid) = errorResponse 404 ''Job not found'')
   \<and> (jobs rid = Some j \<and> userId j \<noteq> uid \<longrightarrow>
        fst (getStatus jobs rid uid) = errorResponse 403 ''Access denied'')
   \<and> (jobs rid = Some j \<and> userId j = uid \<longrightarrow>
        map_of (payload (fst (getStatus jobs rid uid))) ''status''
          = Some (JString (statusName (status j)))
        \<and> (map_of (payload (fst (getStatus jobs rid uid))) ''results'' \<noteq> None
             \<longleftrightarrow> status j = Completed)
        \<and> (status j = Processing \<longrightarrow>
              statusCode (fst (getStatus jobs rid uid)) = 200
              \<and> payload (fst (getStatus jobs rid uid))
                  = [(''status'', JString ''processing''), (''progress'', JNumber (progress j)),
                     (''message'', JString (message j))])
        \<and> (status j = Completed \<longrightarrow>
              statusCode (fst (getStatus jobs rid uid)) = 200
              \<and> map fst (payload (fst (getStatus jobs rid uid)))
                  = [''status'', ''progress'', ''message'', ''results'']
              \<and> map_of (payload (fst (getStatus jobs rid uid))) ''progress''
                  = Some (JNumber 100)
              \<and> map_of (payload (fst (getStatus jobs rid uid))) ''message''
                  = Some (JString (message j))
              \<and> map_of (payload (fst (getStatus jobs rid uid))) ''results''
                  = Some (case results j of None \<Rightarrow> JNull | Some sl \<Rightarrow> JSlots sl))
        \<and> (status j = Failed \<longrightarrow>
              statusCode (fst (getStatus jobs rid uid)) = 500
              \<and> map_of (payload (fst (getStatus jobs rid uid))) ''error''
                  = map_option JString (error j)
              \<and> map_of (payload (fst (getStatus jobs rid uid))) ''progress'' = None
              \<and> map_of (payload (fst (getStatus jobs rid uid))) ''message'' = None))"
proof -
  have same: "snd (getStatus jobs rid uid) = jobs"
    by (simp add: getStatus_def split: option.splits)
  have none: "fst (getStatus jobs rid uid) = errorResponse 404 ''Job not found''"
    if "jobs rid = None"
    using that by (simp add: getStatus_def)
  have other: "fst (getStatus jobs rid uid) = errorResponse 403 ''Access denied''"
    if "jobs rid = Some j" "userId j \<noteq> uid"
    using that by (simp add: getStatus_def)
  have own: "map_of (payload (fst (getStatus jobs rid uid))) ''status''
          = Some (JString (statusName (status j)))
        \<and> (map_of (payload (fst (getStatus jobs rid uid))) ''results'' \<noteq> None
             \<longleftrightarrow> status j = Completed)
        \<and> (status j = Processing \<longrightarrow>
              statusCode (fst (getStatus jobs rid uid)) = 200
              \<and> payload (fst (getStatus jobs rid uid))
                  = [(''status'', JString ''processing''), (''progress'', JNumber (progress j)),
                     (''message'', JString (message j))])
        \<and> (status j = Completed \<longrightarrow>
              statusCode (fst (getStatus jobs rid uid)) = 200
              \<and> map fst (payload (fst (getStatus jobs rid uid)))
                  = [''status'', ''progress'', ''message'', ''results'']
              \<and> map_of (payload (fst (getStatus jobs rid uid))) ''progress''
                  = Some (JNumber 100)
              \<and> map_of (payload (fst (getStatus jobs rid uid))) ''message''
                  = Some (JString (message j))
              \<and> map_of (payload (fst (getStatus jobs rid uid))) ''results''
                  = Some (case results j of None \<Rightarrow> JNull | Some sl \<Rightarrow> JSlots sl))
        \<and> (status j = Failed \<longrightarrow>
              statusCode (fst (getStatus jobs rid uid)) = 500
              \<and> map_of (payload (fst (getStatus jobs rid uid))) ''error''
                  = map_option JString (error j)
              \<and> map_of (payload (fst (getStatus jobs rid uid))) ''progress'' = None
              \<and> map_of (payload (fst (getStatus jobs rid uid))) ''message'' = None)"
    if j: "jobs rid = Some j" "userId j = uid"
  proof (cases "status j")
    case Processing
    with j show ?thesis by (simp add: getStatus_def statusName_def)
  next
    case Completed
    with j show ?thesis by (simp add: getStatus_def statusName_def)
  next
    case Failed
    with j show ?thesis
      by (cases "error j") (simp_all add: getStatus_def statusName_def)
  qed
  from same none other own show ?thesis by simp
qed

theorem getStatus_snapshot_by_state_witness:
  "fst (getStatus [''17'' \<mapsto> exampleJob] ''18'' ''alice'') = errorResponse 404 ''Job not found''
   \<and> fst (getStatus [''17'' \<mapsto> exampleJob] ''17'' ''bob'')
       = errorResponse 403 ''Access denied''
   \<and> payload (fst (getStatus [''17'' \<mapsto> exampleJob] ''17'' ''alice''))
     = [(''status'', JString ''processing''), (''progress'', JNumber (progress exampleJob)),
        (''message'', JString (message exampleJob))]
   \<and> snd (getStatus [''17'' \<mapsto> exampleJob] ''17'' ''alice'') = [''17'' \<mapsto> exampleJob]"
proof -
  have n: "[''17'' \<mapsto> exampleJob] ''18'' = None" by simp
  have o: "[''17'' \<mapsto> exampleJob] ''17'' = Some exampleJob \<and> userId exampleJob \<noteq> ''bob''"
    by (simp add: exampleJob_def newJob_def)
  have p: "[''17'' \<mapsto> exampleJob] ''17'' = Some exampleJob \<and> userId exampleJob = ''alice''"
    by (simp add: exampleJob_def newJob_def)
  have q: "status exampleJob = Processing" by (simp add: exampleJob_def newJob_def)
  note a = getStatus_snapshot_by_state
    [of "[''17'' \<mapsto> exampleJob]" "''18''" "''alice''" exampleJob]
  note b = getStatus_snapshot_by_state
    [of "[''17'' \<mapsto> exampleJob]" "''17''" "''bob''" exampleJob]
  note c = getStatus_snapshot_by_state
    [of "[''17'' \<mapsto> exampleJob]" "''17''" "''alice''" exampleJob]
  from a n have r1: "fst (getStatus [''17'' \<mapsto> exampleJob] ''18'' ''alice'')
     = errorResponse 404 ''Job not found''" by blast
  from b o have r2: "fst (getStatus [''17'' \<mapsto> exampleJob] ''17'' ''bob'')
       = errorResponse 403 ''Access denied''" by blast
  from c p q have r3: "payload (fst (getStatus [''17'' \<mapsto> exampleJob] ''17'' ''alice''))
     = [(''status'', JString ''processing''), (''progress'', JNumber (progress exampleJob)),
        (''message'', JString (message exampleJob))]" by blast
  from c have r4: "snd (getStatus [''17'' \<mapsto> exampleJob] ''17'' ''alice'')
     = [''17'' \<mapsto> exampleJob]" by blast
  from r1 r2 r3 r4 show ?thesis by blast
qed

text \<open>
  Claim C8 as stated fails: the snapshot of a failed job has neither progress nor message.
\<close>

theorem getStatus_failed_counterexample:
  "fst (getStatus [''17'' \<mapsto> failedJob] ''17'' ''alice'')
     = \<lparr>statusCode = 500,
        payload = [(''status'', JString ''failed''),
                   (''error'', JString ''Virtual try-on failed: boom'')]\<rparr>
   \<and> map_of (payload (fst (getStatus [''17'' \<mapsto> failedJob] ''17'' ''alice''))) ''progress''
       = None
   \<and> map_of (payload (fst (getStatus [''17'' \<mapsto> failedJob] ''17'' ''alice''))) ''message''
       = None"
  by (simp add: getStatus_def exampleJob_def failedJob_def failJob_def newJob_def)

end
